theory Spec2Isabelle
  imports
    Complex_Main
    "HOL-Library.Char_ord"
    "HOL-Library.List_Lexorder"
    "HOL-Library.Product_Lexorder"
    "HOL-Library.Monad_Syntax"
    "HOL-Library.Multiset"
begin

section \<open>Values, rows and frames\<close>

text \<open>
  The dashboard (\<^verbatim>\<open>app1.py\<close>) is one script over a pandas data frame. The embedding
  keeps a frame as its column names and its rows; a row maps a column name to a cell.

  \<^item> Text is a list of 8-bit code points (\<^typ>\<open>string\<close>), so the text of the model is
    Python text restricted to code points below 256.
  \<^item> A number is a real or missing (\<open>NaN\<close>): floats are idealised, infinities and
    rounding are outside the model.
  \<^item> A timestamp is a calendar day (year, month, day) with the nanoseconds elapsed
    since midnight, or missing (\<open>NaT\<close>). Timestamps compare lexicographically, which is
    chronological order.
  \<^item> An exception of the script is the result \<open>None\<close>.
\<close>

type_synonym date = "nat \<times> nat \<times> nat"

type_synonym timestamp = "date \<times> nat"

datatype cell = Str string | Num "real option" | Time "timestamp option"

abbreviation NaN :: cell where
  "NaN \<equiv> Num None"

abbreviation NaT :: cell where
  "NaT \<equiv> Time None"

type_synonym row = "string \<rightharpoonup> cell"

record frame =
  columns :: "string list"
  rows :: "row list"

text \<open>A place of the frame that holds nothing reads as \<open>NaN\<close>, as in pandas.\<close>

definition cell_at :: "row \<Rightarrow> string \<Rightarrow> cell" where
  "cell_at r c = (case r c of Some v \<Rightarrow> v | None \<Rightarrow> NaN)"

text \<open>\<^verbatim>\<open>df[c]\<close>: the column, or \<^verbatim>\<open>KeyError\<close>.\<close>

definition getcol :: "frame \<Rightarrow> string \<Rightarrow> cell list option" where
  "getcol df c =
     (if c \<in> set (columns df) then Some (map (\<lambda>r. cell_at r c) (rows df)) else None)"

text \<open>The values of a column, row by row; \<open>getcol\<close> gives them when the frame has
  the column.\<close>

definition cells :: "frame \<Rightarrow> string \<Rightarrow> cell list" where
  "cells df c = map (\<lambda>r. cell_at r c) (rows df)"

text \<open>\<^verbatim>\<open>df[c] = values\<close>: replaces the column, or adds it as the last one. The script
  assigns one value per row throughout (the values are made from a column of the same
  frame), so the case of another number of values, where pandas raises, does not
  arise.\<close>

definition setcol :: "frame \<Rightarrow> string \<Rightarrow> cell list \<Rightarrow> frame" where
  "setcol df c vs =
     \<lparr>columns = (if c \<in> set (columns df) then columns df else columns df @ [c]),
      rows = map (\<lambda>(r, v). r(c \<mapsto> v)) (zip (rows df) vs)\<rparr>"

text \<open>\<^verbatim>\<open>df[c] = scalar\<close>.\<close>

definition setcol_scalar :: "frame \<Rightarrow> string \<Rightarrow> cell \<Rightarrow> frame" where
  "setcol_scalar df c v = setcol df c (replicate (length (rows df)) v)"

text \<open>\<^verbatim>\<open>pd.DataFrame(data)\<close> for a list of dicts: the columns are the keys in the
  order of their first appearance.\<close>

fun unique :: "'a list \<Rightarrow> 'a list" where
  "unique [] = []"
| "unique (x # xs) = x # unique (filter (\<lambda>y. y \<noteq> x) xs)"

definition reindex :: "string list \<Rightarrow> row \<Rightarrow> row" where
  "reindex cols r = (\<lambda>c. if c \<in> set cols then Some (cell_at r c) else None)"

definition DataFrame :: "(string \<times> cell) list list \<Rightarrow> frame" where
  "DataFrame data =
     (let cols = unique (concat (map (map fst) data))
      in \<lparr>columns = cols, rows = map (\<lambda>d. reindex cols (map_of d)) data\<rparr>)"

text \<open>\<^verbatim>\<open>pd.concat([a, b], ignore_index=True)\<close>: the rows of \<open>a\<close>, then those of \<open>b\<close>,
  over the union of the columns.\<close>

definition concat_frames :: "frame \<Rightarrow> frame \<Rightarrow> frame" where
  "concat_frames a b =
     (let cols = columns a @ filter (\<lambda>c. c \<notin> set (columns a)) (columns b)
      in \<lparr>columns = cols, rows = map (reindex cols) (rows a @ rows b)\<rparr>)"

section \<open>Text helpers of Python\<close>

text \<open>\<^verbatim>\<open>str.isspace\<close> on one code point below 256.\<close>

definition isspace :: "char \<Rightarrow> bool" where
  "isspace c =
     (let n = (of_char c :: nat)
      in (9 \<le> n \<and> n \<le> 13) \<or> (28 \<le> n \<and> n \<le> 32) \<or> n = 133 \<or> n = 160)"

definition lstrip :: "string \<Rightarrow> string" where
  "lstrip s = dropWhile isspace s"

definition rstrip :: "string \<Rightarrow> string" where
  "rstrip s = rev (dropWhile isspace (rev s))"

definition strip :: "string \<Rightarrow> string" where
  "strip s = rstrip (lstrip s)"

text \<open>\<^verbatim>\<open>sep.join(xs)\<close>.\<close>

fun join :: "string \<Rightarrow> string list \<Rightarrow> string" where
  "join sep [] = []"
| "join sep [x] = x"
| "join sep (x # y # ys) = x @ sep @ join sep (y # ys)"

section \<open>The add-transaction form\<close>

text \<open>The values of the form's widgets when it is submitted (lines 115--124). The
  tags come from the multiselect's options.\<close>

record txn =
  gender :: string
  cat :: string
  date_input :: date
  amount :: real
  notes_text :: string
  tags :: "string list"

definition tag_options :: "string list" where
  "tag_options = [''food'', ''monthly'', ''one-time'', ''refund'', ''family'']"

text \<open>Lines 127--135: the new row as the dict the script builds, the tags appended
  to the notes.\<close>

definition new_row :: "txn \<Rightarrow> (string \<times> cell) list" where
  "new_row t =
     (let notes0 = (if notes_text t \<noteq> [] then notes_text t else []);
          notes1 = (if tags t \<noteq> []
                    then strip (notes0 @ '' | Tags: '' @ join '', '' (tags t))
                    else notes0)
      in [(''Date'', Time (Some (date_input t, 0))),
          (''Category'', Str (cat t)),
          (''Amount'', Num (Some (amount t))),
          (''Notes'', Str notes1),
          (''Gender'', Str (gender t))])"

text \<open>Line 137: the row is appended to the table.\<close>

definition add_txn :: "frame \<Rightarrow> txn \<Rightarrow> frame" where
  "add_txn df t = concat_frames df (DataFrame [new_row t])"

section \<open>The library's conversions\<close>

text \<open>
  What pandas does with a single value is a parameter of the model wherever the script
  leaves it to the library: parsing a text as a date or as a number, reading a number
  as a date or a timestamp as a number, printing a number or a timestamp with a time
  of day, and the csv dialect (quoting and line ends) that turns records of fields
  into text. Every definition that reaches the library takes these as \<open>L\<close>, and every
  theorem holds for all of them.
\<close>

record pandas =
  parse_datetime :: "string \<Rightarrow> timestamp option"
  datetime_of_num :: "real \<Rightarrow> timestamp option"
  parse_numeric :: "string \<Rightarrow> real option"
  numeric_of_time :: "timestamp option \<Rightarrow> real option"
  str_of_num :: "real \<Rightarrow> string"
  str_of_time :: "timestamp \<Rightarrow> string"
  csv_writer :: "string list list \<Rightarrow> string"

text \<open>\<^verbatim>\<open>pd.to_datetime(x, errors="coerce")\<close> on one value.\<close>

fun to_datetime :: "pandas \<Rightarrow> cell \<Rightarrow> timestamp option" where
  "to_datetime L (Time t) = t"
| "to_datetime L (Num None) = None"
| "to_datetime L (Num (Some x)) = datetime_of_num L x"
| "to_datetime L (Str s) = parse_datetime L s"

text \<open>\<^verbatim>\<open>pd.to_numeric(x, errors="coerce")\<close> on one value.\<close>

fun to_numeric :: "pandas \<Rightarrow> cell \<Rightarrow> real option" where
  "to_numeric L (Num x) = x"
| "to_numeric L (Str s) = parse_numeric L s"
| "to_numeric L (Time t) = numeric_of_time L t"

text \<open>\<^verbatim>\<open>.fillna(0.0)\<close> on one value.\<close>

definition fillna0 :: "real option \<Rightarrow> real option" where
  "fillna0 x = (case x of None \<Rightarrow> Some 0 | Some v \<Rightarrow> Some v)"

text \<open>\<^verbatim>\<open>.astype(str)\<close> on one value.\<close>

fun astype_str :: "pandas \<Rightarrow> cell \<Rightarrow> string" where
  "astype_str L (Str s) = s"
| "astype_str L (Num None) = ''nan''"
| "astype_str L (Num (Some x)) = str_of_num L x"
| "astype_str L (Time None) = ''NaT''"
| "astype_str L (Time (Some t)) = str_of_time L t"

text \<open>\<^verbatim>\<open>.replace(old, new)\<close> on one value of a column of text.\<close>

definition replace_str :: "string \<Rightarrow> string \<Rightarrow> string \<Rightarrow> string" where
  "replace_str old new v = (if v = old then new else v)"

text \<open>A column of datetime dtype, and a column of numeric dtype: the operations on
  dates (\<^verbatim>\<open>.min\<close>, \<^verbatim>\<open>.between\<close>, \<^verbatim>\<open>.dt\<close>) and on numbers (\<^verbatim>\<open>.sum\<close>, \<^verbatim>\<open>.nlargest\<close>)
  raise on any other column.\<close>

fun as_time :: "cell \<Rightarrow> timestamp option option" where
  "as_time (Time t) = Some t"
| "as_time (Str s) = None"
| "as_time (Num x) = None"

fun as_num :: "cell \<Rightarrow> real option option" where
  "as_num (Num x) = Some x"
| "as_num (Str s) = None"
| "as_num (Time t) = None"

definition dtcol :: "frame \<Rightarrow> string \<Rightarrow> timestamp option list option" where
  "dtcol df c = do { vs \<leftarrow> getcol df c; those (map as_time vs) }"

definition numcol :: "frame \<Rightarrow> string \<Rightarrow> real option list option" where
  "numcol df c = do { vs \<leftarrow> getcol df c; those (map as_num vs) }"

text \<open>\<^verbatim>\<open>.dropna()\<close>.\<close>

definition dropna :: "'a option list \<Rightarrow> 'a list" where
  "dropna xs = List.map_filter (\<lambda>x. x) xs"

section \<open>Printing dates\<close>

definition digit :: "nat \<Rightarrow> char" where
  "digit n = char_of (48 + n)"

fun dec :: "nat \<Rightarrow> string" where
  "dec n = (if n < 10 then [digit n] else dec (n div 10) @ [digit (n mod 10)])"

definition zfill :: "nat \<Rightarrow> string \<Rightarrow> string" where
  "zfill w s = replicate (w - length s) (CHR ''0'') @ s"

text \<open>\<^verbatim>\<open>strftime("%Y-%m-%d")\<close>, and the text of a monthly period
  (\<^verbatim>\<open>.dt.to_period("M").astype(str)\<close>).\<close>

definition strftime_ymd :: "timestamp \<Rightarrow> string" where
  "strftime_ymd t =
     (case t of ((y, m, d), ns) \<Rightarrow>
        zfill 4 (dec y) @ ''-'' @ zfill 2 (dec m) @ ''-'' @ zfill 2 (dec d))"

definition period_month :: "timestamp option \<Rightarrow> string" where
  "period_month t =
     (case t of None \<Rightarrow> ''NaT''
      | Some ((y, m, d), ns) \<Rightarrow> zfill 4 (dec y) @ ''-'' @ zfill 2 (dec m))"

section \<open>Loading the data (lines 43--94)\<close>

definition fallback_data :: "(string \<times> cell) list list" where
  "fallback_data =
     [[(''Date'', Str ''2025-01-05''), (''Category'', Str ''Groceries''),
       (''Amount'', Num (Some 1200)), (''Notes'', Str ''Big bazaar''),
       (''Gender'', Str ''Not specified'')],
      [(''Date'', Str ''2025-01-07''), (''Category'', Str ''Transport''),
       (''Amount'', Num (Some 60)), (''Notes'', Str ''Auto''),
       (''Gender'', Str ''Not specified'')],
      [(''Date'', Str ''2025-02-02''), (''Category'', Str ''Utility''),
       (''Amount'', Num (Some 2100)), (''Notes'', Str ''Electricity Bill''),
       (''Gender'', Str ''Not specified'')]]"

text \<open>\<open>load_sample_df\<close>: the argument is what \<^verbatim>\<open>pd.read_csv\<close> makes of the sample
  file, \<open>None\<close> when the file is not there.\<close>

definition load_sample_df :: "frame option \<Rightarrow> frame" where
  "load_sample_df sample_file =
     (let df = (case sample_file of Some d \<Rightarrow> d | None \<Rightarrow> DataFrame fallback_data)
      in if ''Gender'' \<notin> set (columns df)
         then setcol_scalar df ''Gender'' (Str ''Not specified'')
         else df)"

text \<open>\<^verbatim>\<open>str.lower\<close> on code points below 256, and \<^verbatim>\<open>str.endswith\<close>.\<close>

definition lower_char :: "char \<Rightarrow> char" where
  "lower_char c =
     (let n = (of_char c :: nat)
      in if (65 \<le> n \<and> n \<le> 90) \<or> (192 \<le> n \<and> n \<le> 222 \<and> n \<noteq> 215)
         then char_of (n + 32) else c)"

definition lower :: "string \<Rightarrow> string" where
  "lower s = map lower_char s"

definition endswith :: "string \<Rightarrow> string \<Rightarrow> bool" where
  "endswith s suf = (length suf \<le> length s \<and> drop (length s - length suf) s = suf)"

text \<open>An uploaded file: its name, and what \<^verbatim>\<open>pd.read_csv\<close> and \<^verbatim>\<open>pd.read_excel\<close>
  make of it, an exception (with its message) or a frame.\<close>

record uploaded =
  upload_name :: string
  read_csv :: "string + frame"
  read_excel :: "string + frame"

datatype source = Sample "frame option" | Upload "uploaded option"

text \<open>Lines 77--90: the frame (or \<open>None\<close>), and the errors shown in the sidebar.\<close>

fun load_data :: "source \<Rightarrow> frame option \<times> string list" where
  "load_data (Sample sample_file) = (Some (load_sample_df sample_file), [])"
| "load_data (Upload None) = (None, [])"
| "load_data (Upload (Some f)) =
     (case (if endswith (lower (upload_name f)) ''.csv'' then read_csv f else read_excel f) of
        Inr df \<Rightarrow> (Some df, [])
      | Inl e \<Rightarrow> (None, [''Error reading file: '' @ e]))"

section \<open>Normalising the table (lines 92--105)\<close>

definition required :: "string list" where
  "required = [''Date'', ''Category'', ''Amount'', ''Notes'', ''Gender'']"

text \<open>\<open>ensure_datetime_col\<close> (lines 64--70).\<close>

definition ensure_datetime_col :: "pandas \<Rightarrow> frame \<Rightarrow> string \<Rightarrow> frame" where
  "ensure_datetime_col L df col =
     (case getcol df col of
        Some vs \<Rightarrow> setcol df col (map (\<lambda>v. Time (to_datetime L v)) vs)
      | None \<Rightarrow> setcol_scalar df col NaT)"

text \<open>Lines 97--99: the columns the loop goes over, and one step of the loop.\<close>

definition added_columns :: "string list" where
  "added_columns = [''Category'', ''Amount'', ''Notes'', ''Gender'']"

definition add_missing :: "string \<Rightarrow> frame \<Rightarrow> frame" where
  "add_missing col df =
     (if col \<notin> set (columns df)
      then setcol_scalar df col (if col \<noteq> ''Amount'' then Str [] else Num (Some 0))
      else df)"

text \<open>Lines 93--94: without a frame, the page works on an empty table.\<close>

definition or_empty :: "frame option \<Rightarrow> frame" where
  "or_empty loaded =
     (case loaded of None \<Rightarrow> \<lparr>columns = required, rows = []\<rparr> | Some d \<Rightarrow> d)"

definition normalize :: "pandas \<Rightarrow> frame option \<Rightarrow> frame option" where
  "normalize L loaded = do {
     let df0 = or_empty loaded;
     let df1 = fold add_missing added_columns df0;
     let df2 = ensure_datetime_col L df1 ''Date'';
     vs \<leftarrow> getcol df2 ''Amount'';
     Some (setcol df2 ''Amount'' (map (\<lambda>v. Num (fillna0 (to_numeric L v))) vs))
   }"

text \<open>Lines 126--137: the table the rest of the page works on.\<close>

definition submitted :: "frame \<Rightarrow> txn option \<Rightarrow> frame" where
  "submitted df submit = (case submit of Some t \<Rightarrow> add_txn df t | None \<Rightarrow> df)"

section \<open>Filters (lines 146--179)\<close>

record filter_spec =
  selected_cats :: "string list"
  selected_genders :: "string list"
  dr :: "date \<times> date"

text \<open>The text a category or a gender is filtered by.\<close>

definition labels :: "pandas \<Rightarrow> frame \<Rightarrow> string \<Rightarrow> string \<Rightarrow> string list option" where
  "labels L df col dflt = do {
     vs \<leftarrow> getcol df col;
     Some (map (\<lambda>v. replace_str [] dflt (astype_str L v)) vs)
   }"

definition cats_all :: "pandas \<Rightarrow> frame \<Rightarrow> string list option" where
  "cats_all L df = map_option (\<lambda>ls. sort (unique ls)) (labels L df ''Category'' ''(empty)'')"

definition genders_all :: "pandas \<Rightarrow> frame \<Rightarrow> string list option" where
  "genders_all L df =
     map_option (\<lambda>ls. sort (unique ls)) (labels L df ''Gender'' ''Not specified'')"

text \<open>Lines 151--157: the default of the date range.\<close>

definition default_dr :: "date \<Rightarrow> timestamp option list \<Rightarrow> date \<times> date" where
  "default_dr today ds =
     (case dropna ds of
        [] \<Rightarrow> (today, today)
      | t # ts \<Rightarrow> (fst (fold min ts t), fst (fold max ts t)))"

definition default_spec :: "pandas \<Rightarrow> date \<Rightarrow> frame \<Rightarrow> filter_spec option" where
  "default_spec L today df = do {
     cs \<leftarrow> cats_all L df;
     gs \<leftarrow> genders_all L df;
     ds \<leftarrow> dtcol df ''Date'';
     Some \<lparr>selected_cats = cs, selected_genders = gs, dr = default_dr today ds\<rparr>
   }"

text \<open>What the user has set in the three filter widgets (a widget left alone gives
  its default), and the box that asks for the raw data. The other display controls
  only reach the plotting library.\<close>

record widgets =
  chosen_cats :: "string list option"
  chosen_genders :: "string list option"
  chosen_dr :: "(date \<times> date) option"
  show_raw :: bool

definition chosen :: "widgets \<Rightarrow> filter_spec \<Rightarrow> filter_spec" where
  "chosen w d =
     \<lparr>selected_cats = (case chosen_cats w of Some v \<Rightarrow> v | None \<Rightarrow> selected_cats d),
      selected_genders = (case chosen_genders w of Some v \<Rightarrow> v | None \<Rightarrow> selected_genders d),
      dr = (case chosen_dr w of Some v \<Rightarrow> v | None \<Rightarrow> dr d)\<rparr>"

definition isin :: "string list \<Rightarrow> string list \<Rightarrow> bool list" where
  "isin vs sel = map (\<lambda>v. v \<in> set sel) vs"

definition between :: "timestamp option list \<Rightarrow> timestamp \<Rightarrow> timestamp \<Rightarrow> bool list" where
  "between ds lo hi = map (\<lambda>d. case d of None \<Rightarrow> False | Some t \<Rightarrow> lo \<le> t \<and> t \<le> hi) ds"

definition and_mask :: "bool list \<Rightarrow> bool list \<Rightarrow> bool list" where
  "and_mask a b = map (\<lambda>(x, y). x \<and> y) (zip a b)"

text \<open>\<^verbatim>\<open>df.loc[mask]\<close>, for a mask with one truth value per row.\<close>

definition loc :: "frame \<Rightarrow> bool list \<Rightarrow> frame" where
  "loc df m = df\<lparr>rows := map fst (filter snd (zip (rows df) m))\<rparr>"

text \<open>Lines 166--179.\<close>

definition apply_filters :: "pandas \<Rightarrow> filter_spec \<Rightarrow> frame \<Rightarrow> frame option" where
  "apply_filters L spec df = do {
     let start_ts = (fst (dr spec), 0);
     let end_ts = (snd (dr spec), 0);
     cs \<leftarrow> labels L df ''Category'' ''(empty)'';
     let mask_cat = isin cs (selected_cats spec);
     gs \<leftarrow> labels L df ''Gender'' ''Not specified'';
     let mask_gender = isin gs (selected_genders spec);
     ds \<leftarrow> dtcol df ''Date'';
     let mask_date = between ds start_ts end_ts;
     let mask = and_mask (and_mask mask_cat mask_gender) mask_date;
     Some (loc df mask)
   }"

text \<open>Lines 182--188: the month column of the filtered table.\<close>

definition add_month :: "pandas \<Rightarrow> frame \<Rightarrow> frame option" where
  "add_month L dff0 = do {
     let dff = ensure_datetime_col L dff0 ''Date'';
     ds \<leftarrow> dtcol dff ''Date'';
     Some (if rows dff \<noteq> [] \<and> list_ex (\<lambda>d. d \<noteq> None) ds
           then setcol dff ''Month'' (map (\<lambda>d. Str (period_month d)) ds)
           else setcol_scalar dff ''Month'' (Str []))
   }"

definition filtered :: "pandas \<Rightarrow> filter_spec \<Rightarrow> frame \<Rightarrow> frame option" where
  "filtered L spec df = do { dff0 \<leftarrow> apply_filters L spec df; add_month L dff0 }"

section \<open>Key figures (lines 191--198)\<close>

record kpis =
  kpi_total :: real
  kpi_avg :: "real option"
  kpi_count :: nat
  kpi_max :: "real option"

text \<open>\<^verbatim>\<open>Series.sum\<close>, \<^verbatim>\<open>Series.mean\<close> and \<^verbatim>\<open>Series.max\<close> skip missing values; mean and
  max of nothing are \<open>NaN\<close>.\<close>

definition series_sum :: "real option list \<Rightarrow> real" where
  "series_sum xs = sum_list (dropna xs)"

definition series_mean :: "real option list \<Rightarrow> real option" where
  "series_mean xs =
     (case dropna xs of [] \<Rightarrow> None | y # ys \<Rightarrow> Some (sum_list (y # ys) / real (length (y # ys))))"

definition series_max :: "real option list \<Rightarrow> real option" where
  "series_max xs = (case dropna xs of [] \<Rightarrow> None | y # ys \<Rightarrow> Some (fold max ys y))"

definition compute_kpis :: "frame \<Rightarrow> kpis option" where
  "compute_kpis dff = do {
     xs \<leftarrow> numcol dff ''Amount'';
     let n = length (rows dff);
     Some \<lparr>kpi_total = series_sum xs,
           kpi_avg = (if n \<noteq> 0 then series_mean xs else Some 0),
           kpi_count = n,
           kpi_max = (if n \<noteq> 0 then series_max xs else Some 0)\<rparr>
   }"

section \<open>The export (lines 61--62 and 199)\<close>

fun csv_cell :: "pandas \<Rightarrow> cell \<Rightarrow> string" where
  "csv_cell L (Str s) = s"
| "csv_cell L (Num None) = []"
| "csv_cell L (Num (Some x)) = str_of_num L x"
| "csv_cell L (Time None) = []"
| "csv_cell L (Time (Some t)) = str_of_time L t"

fun is_time :: "cell \<Rightarrow> bool" where
  "is_time (Time t) = True"
| "is_time (Str s) = False"
| "is_time (Num x) = False"

fun date_only :: "cell \<Rightarrow> bool" where
  "date_only (Time (Some (d, ns))) = (ns = 0)"
| "date_only (Time None) = True"
| "date_only (Str s) = True"
| "date_only (Num x) = True"

fun csv_date :: "cell \<Rightarrow> string" where
  "csv_date (Time (Some t)) = strftime_ymd t"
| "csv_date (Time None) = []"
| "csv_date (Str s) = []"
| "csv_date (Num x) = []"

text \<open>The fields of one column. A column of timestamps none of which has a time of
  day is written as dates; a missing value is written as the empty text.\<close>

definition csv_column :: "pandas \<Rightarrow> cell list \<Rightarrow> string list" where
  "csv_column L vs =
     (if list_all is_time vs \<and> list_all date_only vs then map csv_date vs
      else map (csv_cell L) vs)"

text \<open>The records of \<^verbatim>\<open>df.to_csv(index=False)\<close>: the header, then one record per row.\<close>

definition csv_records :: "pandas \<Rightarrow> frame \<Rightarrow> string list list" where
  "csv_records L df =
     (let cols = map (\<lambda>c. csv_column L (map (\<lambda>r. cell_at r c) (rows df))) (columns df)
      in columns df # map (\<lambda>i. map (\<lambda>col. col ! i) cols) [0..<length (rows df)])"

definition to_csv :: "pandas \<Rightarrow> frame \<Rightarrow> string" where
  "to_csv L df = csv_writer L (csv_records L df)"

text \<open>\<^verbatim>\<open>str.encode("utf-8")\<close> on code points below 256.\<close>

definition encode_utf8 :: "string \<Rightarrow> char list" where
  "encode_utf8 s =
     concat (map (\<lambda>c. let n = (of_char c :: nat)
                       in if n < 128 then [c]
                          else [char_of (192 + n div 64), char_of (128 + n mod 64)]) s)"

definition to_csv_bytes :: "pandas \<Rightarrow> frame \<Rightarrow> char list" where
  "to_csv_bytes L df = encode_utf8 (to_csv L df)"

record download =
  data :: "char list"
  file_name :: string
  mime :: string

definition download_button :: "pandas \<Rightarrow> frame \<Rightarrow> download" where
  "download_button L dff =
     \<lparr>data = to_csv_bytes L dff, file_name = ''filtered_expenses.csv'', mime = ''text/csv''\<rparr>"

section \<open>Trend and top items (lines 224--240)\<close>

text \<open>\<^verbatim>\<open>groupby(key)[value].sum()\<close>, the groups in the order of their keys.\<close>

definition groupby_sum :: "string list \<Rightarrow> real option list \<Rightarrow> (string \<times> real) list" where
  "groupby_sum ks xs =
     map (\<lambda>k. (k, series_sum (map snd (filter (\<lambda>(k', x). k' = k) (zip ks xs)))))
       (sort (unique ks))"

datatype panel = Info string | Line "(string \<times> real) list"

text \<open>\<^verbatim>\<open>.astype(bool)\<close> on one value.\<close>

fun astype_bool :: "cell \<Rightarrow> bool" where
  "astype_bool (Str s) = (s \<noteq> [])"
| "astype_bool (Num None) = True"
| "astype_bool (Num (Some x)) = (x \<noteq> 0)"
| "astype_bool (Time t) = True"

text \<open>Lines 205--222 and 226--231: a panel shows a chart, or says that there is
  nothing to show. The chart of the breakdown is drawn by the plotting library from
  the filtered table; the model keeps only whether it is drawn. The month column
  holds text, which is the key of the groups.\<close>

definition breakdown :: "frame \<Rightarrow> string option" where
  "breakdown dff =
     (if rows dff \<noteq> [] then None
      else Some ''No data for the selected filters to display chart.'')"

definition trend :: "pandas \<Rightarrow> frame \<Rightarrow> panel option" where
  "trend L dff = do {
     ms \<leftarrow> getcol dff ''Month'';
     if rows dff \<noteq> [] \<and> list_ex astype_bool ms
     then do { xs \<leftarrow> numcol dff ''Amount''; Some (Line (groupby_sum (map (astype_str L) ms) xs)) }
     else Some (Info ''No monthly trend data available for current filters.'')
   }"

text \<open>\<^verbatim>\<open>nlargest(n, col)\<close> keeps the first of equal values: the positions of the rows
  are sorted by decreasing value with a stable sort, rows without a value come last,
  and the first \<open>n\<close> positions are taken.\<close>

definition nlargest_indexer :: "nat \<Rightarrow> real option list \<Rightarrow> nat list" where
  "nlargest_indexer n xs =
     take n (sort_key (\<lambda>i. - the (xs ! i)) (filter (\<lambda>i. xs ! i \<noteq> None) [0..<length xs])
             @ filter (\<lambda>i. xs ! i = None) [0..<length xs])"

definition nlargest :: "frame \<Rightarrow> nat \<Rightarrow> string \<Rightarrow> frame option" where
  "nlargest df n col = do {
     xs \<leftarrow> numcol df col;
     Some (df\<lparr>rows := map (\<lambda>i. rows df ! i) (nlargest_indexer n xs)\<rparr>)
   }"

text \<open>\<^verbatim>\<open>df[[c1, c2, ...]]\<close>.\<close>

definition project :: "frame \<Rightarrow> string list \<Rightarrow> frame option" where
  "project df cols =
     (if list_all (\<lambda>c. c \<in> set (columns df)) cols
      then Some \<lparr>columns = cols, rows = map (\<lambda>r. r |` set cols) (rows df)\<rparr>
      else None)"

text \<open>Line 235: the five largest transactions.\<close>

definition top5 :: "frame \<Rightarrow> frame option" where
  "top5 dff = do { t \<leftarrow> nlargest dff 5 ''Amount''; project t required }"

text \<open>Lines 238--239 and 246--247: the dates of a table as text, when the table has
  the column.\<close>

definition date_as_text :: "frame \<Rightarrow> frame option" where
  "date_as_text df =
     (if ''Date'' \<in> set (columns df)
      then do {
        ds \<leftarrow> dtcol df ''Date'';
        Some (setcol df ''Date''
                (map (\<lambda>d. Str (case d of None \<Rightarrow> [] | Some ts \<Rightarrow> strftime_ymd ts)) ds))
      }
      else Some df)"

definition top5_display :: "frame \<Rightarrow> frame option" where
  "top5_display t = date_as_text t"

text \<open>Lines 233--240: the table is made only when the filtered table has a row.\<close>

definition top_items :: "frame \<Rightarrow> frame option option" where
  "top_items dff =
     (if rows dff \<noteq> []
      then do { t \<leftarrow> top5 dff; t' \<leftarrow> top5_display t; Some (Some t') }
      else Some None)"

text \<open>Lines 243--248: the first 200 rows of the filtered table, when the box is
  ticked.\<close>

definition raw_data :: "bool \<Rightarrow> frame \<Rightarrow> frame option option" where
  "raw_data ticked dff =
     (if ticked
      then do { df_show \<leftarrow> date_as_text dff; Some (Some (df_show\<lparr>rows := take 200 (rows df_show)\<rparr>)) }
      else Some None)"

text \<open>Line 118: the categories the form offers.\<close>

definition cat_options :: "pandas \<Rightarrow> frame \<Rightarrow> string list option" where
  "cat_options L df = do {
     vs \<leftarrow> getcol df ''Category'';
     Some (sort (unique (map (astype_str L) vs @
        [''Groceries'', ''Transport'', ''Entertainment'', ''Utility'', ''Health'', ''Travel''])))
   }"

section \<open>The page\<close>

record page =
  errors :: "string list"
  form_categories :: "string list"
  table :: frame
  dff :: frame
  figures :: kpis
  csv :: download
  chart_info :: "string option"
  monthly :: panel
  top :: "frame option"
  raw :: "frame option"

text \<open>One run of the script: the data source, the submitted form (if any), the
  filter widgets and today's date give what the page shows, or \<open>None\<close> when the run
  raises.\<close>

definition run_page :: "pandas \<Rightarrow> date \<Rightarrow> source \<Rightarrow> txn option \<Rightarrow> widgets \<Rightarrow> page option" where
  "run_page L today src submit w =
     (case load_data src of (loaded, errs) \<Rightarrow> do {
        df0 \<leftarrow> normalize L loaded;
        cs \<leftarrow> cat_options L df0;
        let df = submitted df0 submit;
        d \<leftarrow> default_spec L today df;
        f \<leftarrow> filtered L (chosen w d) df;
        k \<leftarrow> compute_kpis f;
        m \<leftarrow> trend L f;
        t \<leftarrow> top_items f;
        r \<leftarrow> raw_data (show_raw w) f;
        Some \<lparr>errors = errs, form_categories = cs, table = df, dff = f, figures = k,
              csv = download_button L f, chart_info = breakdown f, monthly = m, top = t,
              raw = r\<rparr>
      })"

text \<open>The invariant of the table the page works on: the five columns are there, every
  date is a timestamp or \<open>NaT\<close>, and every amount is a number.\<close>

fun is_number :: "cell \<Rightarrow> bool" where
  "is_number (Num (Some x)) = True"
| "is_number (Num None) = False"
| "is_number (Str s) = False"
| "is_number (Time t) = False"

definition ledger_ok :: "frame \<Rightarrow> bool" where
  "ledger_ok df =
     (list_all (\<lambda>c. c \<in> set (columns df)) required \<and>
      list_all (\<lambda>r. is_time (cell_at r ''Date'') \<and> is_number (cell_at r ''Amount'')) (rows df))"

section \<open>Worked inputs\<close>

text \<open>The worked examples below hold values that are typed already (numbers and
  timestamps, as a spreadsheet gives them), so that no text has to be parsed. They run
  with a library that parses no text and prints nothing.\<close>

definition typed_only :: pandas where
  "typed_only =
     \<lparr>parse_datetime = (\<lambda>s. None), datetime_of_num = (\<lambda>x. None),
      parse_numeric = (\<lambda>s. None), numeric_of_time = (\<lambda>t. None),
      str_of_num = (\<lambda>x. []), str_of_time = (\<lambda>t. []), csv_writer = (\<lambda>rs. [])\<rparr>"

text \<open>The three transactions of the fallback data as a spreadsheet holds them.\<close>

definition sheet :: frame where
  "sheet = DataFrame
     [[(''Date'', Time (Some ((2025, 1, 5), 0))), (''Category'', Str ''Groceries''),
       (''Amount'', Num (Some 1200)), (''Notes'', Str ''Big bazaar''),
       (''Gender'', Str ''Not specified'')],
      [(''Date'', Time (Some ((2025, 1, 7), 0))), (''Category'', Str ''Transport''),
       (''Amount'', Num (Some 60)), (''Notes'', Str ''Auto''),
       (''Gender'', Str ''Not specified'')],
      [(''Date'', Time (Some ((2025, 2, 2), 0))), (''Category'', Str ''Utility''),
       (''Amount'', Num (Some 2100)), (''Notes'', Str ''Electricity Bill''),
       (''Gender'', Str ''Not specified'')]]"

text \<open>An uploaded spreadsheet with a refund (a negative amount), a row without date
  and amount, and a column of its own.\<close>

definition refund_sheet :: frame where
  "refund_sheet = DataFrame
     [[(''Date'', Time (Some ((2025, 3, 1), 0))), (''Category'', Str ''Refund''),
       (''Amount'', Num (Some (- 250))), (''Notes'', Str ''Returned shoes''),
       (''Gender'', Str ''Female''), (''Shop'', Str ''Mall'')],
      [(''Date'', NaN), (''Category'', Str ''Groceries''),
       (''Amount'', NaN), (''Notes'', Str ''''),
       (''Gender'', Str ''Female''), (''Shop'', Str ''Market'')]]"

text \<open>Seven transactions of one day, with amounts that tie.\<close>

definition ties_sheet :: frame where
  "ties_sheet = DataFrame
     (map (\<lambda>(c, a). [(''Date'', Time (Some ((2025, 4, 1), 0))), (''Category'', Str c),
                       (''Amount'', Num (Some a)), (''Notes'', Str []), (''Gender'', Str ''Other'')])
        [(''a'', 3), (''b'', 7), (''c'', 7), (''d'', 1), (''e'', 9), (''f'', 3), (''g'', 3)])"

text \<open>The filter widgets left alone, and the raw data asked for.\<close>

definition no_choice :: widgets where
  "no_choice =
     \<lparr>chosen_cats = None, chosen_genders = None, chosen_dr = None, show_raw = True\<rparr>"

section \<open>Columns of a frame\<close>

lemma cell_at_upd [simp]: "cell_at (r(c \<mapsto> v)) c' = (if c' = c then v else cell_at r c')"
  by (simp add: cell_at_def)

lemma zip_map_same: "zip xs (map g xs) = map (\<lambda>x. (x, g x)) xs"
  by (induction xs) auto

lemma zip_replicate_same: "zip xs (replicate (length xs) v) = map (\<lambda>x. (x, v)) xs"
  by (induction xs) auto

lemma length_cells [simp]: "length (cells df c) = length (rows df)"
  by (simp add: cells_def)

lemma getcol_cells: "getcol df c = (if c \<in> set (columns df) then Some (cells df c) else None)"
  by (simp add: getcol_def cells_def)

lemma columns_setcol [simp]:
  "columns (setcol df c vs) = (if c \<in> set (columns df) then columns df else columns df @ [c])"
  by (simp add: setcol_def)

lemma set_columns_setcol [simp]: "set (columns (setcol df c vs)) = insert c (set (columns df))"
  by auto

lemma rows_setcol_map:
  "rows (setcol df c (map h (rows df))) = map (\<lambda>r. r(c \<mapsto> h r)) (rows df)"
  by (simp add: setcol_def zip_map_same comp_def)

lemma rows_setcol_cells:
  "rows (setcol df c (map g (cells df c'))) = map (\<lambda>r. r(c \<mapsto> g (cell_at r c'))) (rows df)"
  by (simp add: cells_def rows_setcol_map comp_def)

lemma cells_setcol_cells:
  "cells (setcol df c (map g (cells df c')) ) k =
     (if k = c then map g (cells df c') else cells df k)"
  by (simp add: cells_def rows_setcol_map comp_def)

lemma columns_setcol_scalar [simp]:
  "columns (setcol_scalar df c v) = (if c \<in> set (columns df) then columns df else columns df @ [c])"
  by (simp add: setcol_scalar_def)

lemma rows_setcol_scalar:
  "rows (setcol_scalar df c v) = map (\<lambda>r. r(c \<mapsto> v)) (rows df)"
  by (simp add: setcol_scalar_def setcol_def zip_replicate_same comp_def)

lemma cells_setcol_scalar:
  "cells (setcol_scalar df c v) k =
     (if k = c then replicate (length (rows df)) v else cells df k)"
  by (simp add: cells_def rows_setcol_scalar comp_def map_replicate_const)

lemma length_rows_setcol_scalar [simp]: "length (rows (setcol_scalar df c v)) = length (rows df)"
  by (simp add: rows_setcol_scalar)

lemma length_rows_setcol_cells [simp]:
  "length (rows (setcol df c (map g (cells df c')))) = length (rows df)"
  by (simp add: rows_setcol_cells)

subsection \<open>The date column\<close>

lemma ensure_datetime_col_eq:
  "ensure_datetime_col L df c =
     (if c \<in> set (columns df) then setcol df c (map (\<lambda>v. Time (to_datetime L v)) (cells df c))
      else setcol_scalar df c NaT)"
  by (simp add: ensure_datetime_col_def getcol_cells)

lemma set_columns_ensure [simp]:
  "set (columns (ensure_datetime_col L df c)) = insert c (set (columns df))"
  by (auto simp add: ensure_datetime_col_eq)

lemma columns_ensure:
  "columns (ensure_datetime_col L df c) = (if c \<in> set (columns df) then columns df else columns df @ [c])"
  by (simp add: ensure_datetime_col_eq)

lemma length_rows_ensure [simp]: "length (rows (ensure_datetime_col L df c)) = length (rows df)"
  by (simp add: ensure_datetime_col_eq)

lemma cells_ensure:
  "cells (ensure_datetime_col L df c) k =
     (if k = c then (if c \<in> set (columns df) then map (\<lambda>v. Time (to_datetime L v)) (cells df c)
                     else replicate (length (rows df)) NaT)
      else cells df k)"
  by (simp add: ensure_datetime_col_eq cells_setcol_cells cells_setcol_scalar)

subsection \<open>The added columns\<close>


lemma add_missing_eq:
  "add_missing c df = (if c \<in> set (columns df) then df else setcol_scalar df c (if c \<noteq> ''Amount'' then Str [] else Num (Some 0)))"
  by (simp add: add_missing_def)

lemma set_columns_fold_add_missing:
  "set (columns (fold add_missing cs df)) = set (columns df) \<union> set cs"
  by (induction cs arbitrary: df) (auto simp add: add_missing_eq)

lemma columns_fold_add_missing:
  "distinct cs \<Longrightarrow>
   columns (fold add_missing cs df) = columns df @ filter (\<lambda>c. c \<notin> set (columns df)) cs"
proof (induction cs arbitrary: df)
  case Nil
  then show ?case by simp
next
  case (Cons c cs)
  have "filter (\<lambda>x. x \<noteq> c \<and> x \<notin> set (columns df)) cs = filter (\<lambda>x. x \<notin> set (columns df)) cs"
    using Cons.prems by (intro filter_cong) auto
  with Cons show ?case by (simp add: add_missing_eq)
qed

lemma length_rows_fold_add_missing [simp]:
  "length (rows (fold add_missing cs df)) = length (rows df)"
  by (induction cs arbitrary: df) (auto simp add: add_missing_eq)

lemma cells_fold_add_missing:
  "cells (fold add_missing cs df) k =
     (if k \<in> set cs \<and> k \<notin> set (columns df) then replicate (length (rows df)) (if k \<noteq> ''Amount'' then Str [] else Num (Some 0))
      else cells df k)"
proof (induction cs arbitrary: df)
  case Nil
  then show ?case by simp
next
  case (Cons c cs)
  show ?case
  proof (cases "c \<in> set (columns df)")
    case True
    then show ?thesis using Cons.IH [of df] by (auto simp add: add_missing_eq)
  next
    case False
    then show ?thesis
      using Cons.IH [of "setcol_scalar df c (if c \<noteq> ''Amount'' then Str [] else Num (Some 0))"]
      by (auto simp add: add_missing_eq cells_setcol_scalar)
  qed
qed

subsection \<open>The normalised table\<close>

lemma set_added_columns: "set added_columns = {''Category'', ''Amount'', ''Notes'', ''Gender''}"
  by (simp add: added_columns_def)

lemma distinct_added_columns: "distinct added_columns"
  by (simp add: added_columns_def)

lemma normalize_eq:
  "normalize L loaded =
     Some (setcol (ensure_datetime_col L (fold add_missing added_columns (or_empty loaded)) ''Date'') ''Amount''
            (map (\<lambda>v. Num (fillna0 (to_numeric L v)))
               (cells (ensure_datetime_col L (fold add_missing added_columns (or_empty loaded)) ''Date'') ''Amount'')))"
proof -
  have "''Amount'' \<in> set (columns (ensure_datetime_col L (fold add_missing added_columns (or_empty loaded)) ''Date''))"
    by (simp add: set_columns_fold_add_missing set_added_columns)
  then show ?thesis
    unfolding normalize_def Let_def by (simp only: getcol_cells if_True bind.bind_lunit)
qed

lemma normalize_length:
  "normalize L loaded = Some df \<Longrightarrow> length (rows df) = length (rows (or_empty loaded))"
  unfolding normalize_eq by auto

lemma normalize_set_columns:
  "normalize L loaded = Some df \<Longrightarrow> set (columns df) = set (columns (or_empty loaded)) \<union> set required"
  unfolding normalize_eq by (auto simp add: set_columns_fold_add_missing required_def set_added_columns)

lemma normalize_columns:
  "normalize L loaded = Some df \<Longrightarrow>
   columns df = columns (or_empty loaded) @
     filter (\<lambda>c. c \<notin> set (columns (or_empty loaded))) [''Category'', ''Amount'', ''Notes'', ''Gender'', ''Date'']"
proof -
  assume a: "normalize L loaded = Some df"
  define d0 where "d0 = or_empty loaded"
  define d1 where "d1 = fold add_missing added_columns d0"
  have c1: "columns d1 = columns d0 @ filter (\<lambda>c. c \<notin> set (columns d0)) added_columns"
    unfolding d1_def by (rule columns_fold_add_missing) (rule distinct_added_columns)
  have s1: "set (columns d1) = set (columns d0) \<union> set added_columns"
    unfolding d1_def by (rule set_columns_fold_add_missing)
  have "columns df = columns (ensure_datetime_col L d1 ''Date'')"
    using a unfolding normalize_eq d1_def d0_def
    by (auto simp add: set_columns_fold_add_missing set_added_columns)
  also have "\<dots> = (if ''Date'' \<in> set (columns d0) then columns d1 else columns d1 @ [''Date''])"
    by (simp add: columns_ensure s1 set_added_columns)
  finally show ?thesis
    unfolding c1 d0_def [symmetric] by (simp add: added_columns_def)
qed

lemma normalize_cells:
  assumes "normalize L loaded = Some df"
  shows "cells df k =
     (if k = ''Amount'' then
        (if k \<in> set (columns (or_empty loaded))
         then map (\<lambda>v. Num (fillna0 (to_numeric L v))) (cells (or_empty loaded) k)
         else replicate (length (rows (or_empty loaded))) (Num (Some 0)))
      else if k = ''Date'' then
        (if k \<in> set (columns (or_empty loaded))
         then map (\<lambda>v. Time (to_datetime L v)) (cells (or_empty loaded) k)
         else replicate (length (rows (or_empty loaded))) NaT)
      else if k \<in> {''Category'', ''Notes'', ''Gender''} \<and> k \<notin> set (columns (or_empty loaded))
        then replicate (length (rows (or_empty loaded))) (Str [])
      else cells (or_empty loaded) k)"
proof -
  let ?d0 = "or_empty loaded"
  let ?d1 = "fold add_missing added_columns ?d0"
  let ?d2 = "ensure_datetime_col L ?d1 ''Date''"
  have df: "df = setcol ?d2 ''Amount'' (map (\<lambda>v. Num (fillna0 (to_numeric L v))) (cells ?d2 ''Amount''))"
    using assms unfolding normalize_eq by simp
  have 1: "cells ?d1 c = (if c \<in> set added_columns \<and> c \<notin> set (columns ?d0)
             then replicate (length (rows ?d0)) (if c \<noteq> ''Amount'' then Str [] else Num (Some 0)) else cells ?d0 c)" for c
    by (rule cells_fold_add_missing)
  have 2: "cells ?d2 c = (if c = ''Date'' then (if ''Date'' \<in> set (columns ?d0)
                 then map (\<lambda>v. Time (to_datetime L v)) (cells ?d0 ''Date'')
                 else replicate (length (rows ?d0)) NaT)
             else cells ?d1 c)" for c
    by (simp add: cells_ensure set_columns_fold_add_missing set_added_columns 1)
  have 3: "cells df c = (if c = ''Amount'' then map (\<lambda>v. Num (fillna0 (to_numeric L v))) (cells ?d2 ''Amount'')
              else cells ?d2 c)" for c
    unfolding df by (rule cells_setcol_cells)
  show ?thesis
    by (simp add: 3 2 1 fillna0_def set_added_columns)
qed

section \<open>Adding a transaction\<close>

lemma cell_at_reindex [simp]:
  "cell_at (reindex cols r) k = (if k \<in> set cols then cell_at r k else NaN)"
  by (simp add: reindex_def cell_at_def)

lemma columns_concat_frames:
  "columns (concat_frames a b) = columns a @ filter (\<lambda>c. c \<notin> set (columns a)) (columns b)"
  by (simp add: concat_frames_def Let_def)

lemma set_columns_concat_frames [simp]:
  "set (columns (concat_frames a b)) = set (columns a) \<union> set (columns b)"
  by (auto simp add: columns_concat_frames)

lemma length_rows_concat_frames [simp]:
  "length (rows (concat_frames a b)) = length (rows a) + length (rows b)"
  by (simp add: concat_frames_def Let_def)

lemma cells_concat_frames:
  "k \<in> set (columns a) \<union> set (columns b) \<Longrightarrow>
   cells (concat_frames a b) k = cells a k @ cells b k"
  by (auto simp add: cells_def concat_frames_def Let_def)

lemma columns_new_frame: "columns (DataFrame [new_row t]) = required"
  by (simp add: DataFrame_def new_row_def Let_def required_def)

lemma rows_new_frame:
  "rows (DataFrame [new_row t]) = [reindex required (map_of (new_row t))]"
  by (simp add: DataFrame_def new_row_def Let_def required_def)

lemma cells_new_frame:
  "cells (DataFrame [new_row t]) k = [if k \<in> set required then cell_at (map_of (new_row t)) k else NaN]"
  by (simp add: cells_def rows_new_frame)

lemma cells_add_txn:
  "k \<in> set required \<Longrightarrow> cells (add_txn df t) k = cells df k @ [cell_at (map_of (new_row t)) k]"
  by (simp add: add_txn_def cells_concat_frames columns_new_frame cells_new_frame)

lemma notes_new_row: "cell_at (map_of (new_row t)) ''Notes'' =
   Str (if tags t \<noteq> [] then strip (notes_text t @ '' | Tags: '' @ join '', '' (tags t)) else notes_text t)"
  by (simp add: new_row_def Let_def cell_at_def)

text \<open>
  Claim C8. Adding a transaction with notes \<open>lunch\<close> and tags \<open>food\<close>, \<open>monthly\<close>
  appends a record whose notes are \<open>lunch | Tags: food, monthly\<close>; the notes of the
  records already in the table stay as they are.
\<close>

theorem add_txn_lunch_notes:
  "cells (add_txn df (t\<lparr>notes_text := ''lunch'', tags := [''food'', ''monthly'']\<rparr>)) ''Notes'' =
     cells df ''Notes'' @ [Str ''lunch | Tags: food, monthly'']"
  by (simp add: cells_add_txn required_def notes_new_row strip_def lstrip_def rstrip_def isspace_def)

lemma rstrip_id: "s \<noteq> [] \<Longrightarrow> \<not> isspace (last s) \<Longrightarrow> rstrip s = s"
  by (cases s rule: rev_cases) (simp_all add: rstrip_def)

lemma join_last:
  "xs \<noteq> [] \<Longrightarrow> last xs \<noteq> [] \<Longrightarrow> join sep xs \<noteq> [] \<and> last (join sep xs) = last (last xs)"
  by (induction sep xs rule: join.induct) auto

lemma tag_option_end: "x \<in> set tag_options \<Longrightarrow> x \<noteq> [] \<and> \<not> isspace (last x)"
  by (auto simp add: tag_options_def isspace_def)

text \<open>
  Claim C10. A transaction added with tags (one or more of the multiselect's options)
  and empty notes is stored with the notes \<open>| Tags: tag1, tag2\<close>: \<^verbatim>\<open>strip\<close> removes
  the blank in front of the separator, and nothing at the end.
\<close>

theorem tags_without_notes:
  assumes "tags t \<noteq> []" and "set (tags t) \<subseteq> set tag_options" and "notes_text t = []"
  shows "cells (add_txn df t) ''Notes'' = cells df ''Notes'' @ [Str (''| Tags: '' @ join '', '' (tags t))]"
proof -
  let ?j = "join '', '' (tags t)"
  have "last (tags t) \<in> set tag_options"
    using assms(1,2) by (meson last_in_set subsetD)
  then have e: "last (tags t) \<noteq> []" "\<not> isspace (last (last (tags t)))"
    using tag_option_end by blast+
  have j: "?j \<noteq> []" "last ?j = last (last (tags t))"
    using join_last [OF assms(1) e(1)] by simp_all
  have l: "lstrip ('' | Tags: '' @ ?j) = ''| Tags: '' @ ?j"
    by (simp add: lstrip_def isspace_def)
  have "rstrip (''| Tags: '' @ ?j) = ''| Tags: '' @ ?j"
    by (rule rstrip_id) (use j e in simp_all)
  then have "strip ('' | Tags: '' @ ?j) = ''| Tags: '' @ ?j"
    by (simp only: strip_def l)
  then show ?thesis
    using assms(1,3) by (simp add: cells_add_txn required_def notes_new_row)
qed

lemma cells_sheet_notes:
  "cells sheet ''Notes'' = [Str ''Big bazaar'', Str ''Auto'', Str ''Electricity Bill'']"
  by (simp add: cells_def sheet_def DataFrame_def Let_def)

theorem tags_without_notes_witness:
  "set [''refund'', ''family''] \<subseteq> set tag_options \<and>
   cells (add_txn sheet
      \<lparr>gender = ''Other'', cat = ''Travel'', date_input = (2025, 3, 1), amount = 10,
       notes_text = [], tags = [''refund'', ''family'']\<rparr>) ''Notes''
   = [Str ''Big bazaar'', Str ''Auto'', Str ''Electricity Bill'', Str ''| Tags: refund, family'']"
  using tags_without_notes [of "\<lparr>gender = ''Other'', cat = ''Travel'', date_input = (2025, 3, 1),
       amount = 10, notes_text = [], tags = [''refund'', ''family'']\<rparr>" sheet]
  by (simp add: tag_options_def cells_sheet_notes)

section \<open>The normalised table is a table of the page\<close>

lemma ledger_ok_cells:
  "ledger_ok df \<longleftrightarrow>
     set required \<subseteq> set (columns df) \<and> list_all is_time (cells df ''Date'') \<and>
     list_all is_number (cells df ''Amount'')"
  by (auto simp add: ledger_ok_def cells_def list_all_iff)

lemma list_all_replicate: "list_all P (replicate n x) \<longleftrightarrow> n = 0 \<or> P x"
  by (auto simp add: list_all_iff)

lemma is_number_fillna0 [simp]: "is_number (Num (fillna0 x))"
  by (cases x) (simp_all add: fillna0_def)

lemma normalize_ledger_ok:
  assumes "normalize L loaded = Some df"
  shows "ledger_ok df"
proof -
  have "set required \<subseteq> set (columns df)"
    using normalize_set_columns [OF assms] by simp
  moreover have "list_all is_time (cells df ''Date'')"
    by (simp add: normalize_cells [OF assms] list_all_iff)
  moreover have "list_all is_number (cells df ''Amount'')"
    by (simp add: normalize_cells [OF assms] list_all_iff)
  ultimately show ?thesis by (simp add: ledger_ok_cells)
qed

lemma cells_new_row_Date: "cell_at (map_of (new_row t)) ''Date'' = Time (Some (date_input t, 0))"
  by (simp add: new_row_def Let_def cell_at_def)

lemma cells_new_row_Amount: "cell_at (map_of (new_row t)) ''Amount'' = Num (Some (amount t))"
  by (simp add: new_row_def Let_def cell_at_def)

lemma cells_new_row_Category: "cell_at (map_of (new_row t)) ''Category'' = Str (cat t)"
  by (simp add: new_row_def Let_def cell_at_def)

lemma cells_new_row_Gender: "cell_at (map_of (new_row t)) ''Gender'' = Str (gender t)"
  by (simp add: new_row_def Let_def cell_at_def)

lemma add_txn_ledger_ok:
  assumes "ledger_ok df"
  shows "ledger_ok (add_txn df t)"
proof -
  have "set required \<subseteq> set (columns (add_txn df t))"
    by (simp add: add_txn_def columns_new_frame)
  moreover have "list_all is_time (cells (add_txn df t) ''Date'')"
    using assms by (simp add: ledger_ok_cells cells_add_txn required_def cells_new_row_Date)
  moreover have "list_all is_number (cells (add_txn df t) ''Amount'')"
    using assms by (simp add: ledger_ok_cells cells_add_txn required_def cells_new_row_Amount)
  ultimately show ?thesis by (simp add: ledger_ok_cells)
qed

lemma submitted_ledger_ok: "ledger_ok df \<Longrightarrow> ledger_ok (submitted df submit)"
  by (cases submit) (simp_all add: submitted_def add_txn_ledger_ok)

lemma normalize_total: "\<exists>df. normalize L loaded = Some df"
  by (simp add: normalize_eq)

text \<open>Every table the page works on satisfies the invariant, whatever was loaded and
  whether or not a transaction was submitted. The theorems below are stated for the
  tables that satisfy it.\<close>

lemma page_table_ok:
  "\<exists>df0. normalize L loaded = Some df0 \<and> ledger_ok (submitted df0 submit)"
  using normalize_total normalize_ledger_ok submitted_ledger_ok by blast

text \<open>
  Claim C4, as the code has it. For every input (a frame, or none) the normaliser
  returns a table with the same number of rows whose columns are the input's columns,
  all kept, followed by those of Category, Amount, Notes, Gender and Date that the
  input lacks; so the five required columns are always there. A column that was
  missing is filled with the empty text (Category, Notes, Gender), with 0 (Amount) or
  with \<open>NaT\<close> (Date); the amounts and dates of the input are converted, and every other
  column is left as it is.
\<close>

theorem normalize_schema:
  "\<exists>df. normalize L loaded = Some df \<and>
     columns df = columns (or_empty loaded) @
        filter (\<lambda>c. c \<notin> set (columns (or_empty loaded)))
          [''Category'', ''Amount'', ''Notes'', ''Gender'', ''Date''] \<and>
     set required \<subseteq> set (columns df) \<and>
     length (rows df) = length (rows (or_empty loaded)) \<and>
     (\<forall>k. cells df k =
        (if k \<in> set (columns (or_empty loaded)) then
           (if k = ''Amount'' then map (\<lambda>v. Num (fillna0 (to_numeric L v))) (cells (or_empty loaded) k)
            else if k = ''Date'' then map (\<lambda>v. Time (to_datetime L v)) (cells (or_empty loaded) k)
            else cells (or_empty loaded) k)
         else if k \<in> {''Category'', ''Notes'', ''Gender''}
           then replicate (length (rows (or_empty loaded))) (Str [])
         else if k = ''Amount'' then replicate (length (rows (or_empty loaded))) (Num (Some 0))
         else if k = ''Date'' then replicate (length (rows (or_empty loaded))) NaT
         else cells (or_empty loaded) k))"
proof -
  obtain df where df: "normalize L loaded = Some df"
    using normalize_total by blast
  have "set required \<subseteq> set (columns df)"
    using normalize_set_columns [OF df] by simp
  moreover have "\<forall>k. cells df k =
        (if k \<in> set (columns (or_empty loaded)) then
           (if k = ''Amount'' then map (\<lambda>v. Num (fillna0 (to_numeric L v))) (cells (or_empty loaded) k)
            else if k = ''Date'' then map (\<lambda>v. Time (to_datetime L v)) (cells (or_empty loaded) k)
            else cells (or_empty loaded) k)
         else if k \<in> {''Category'', ''Notes'', ''Gender''}
           then replicate (length (rows (or_empty loaded))) (Str [])
         else if k = ''Amount'' then replicate (length (rows (or_empty loaded))) (Num (Some 0))
         else if k = ''Date'' then replicate (length (rows (or_empty loaded))) NaT
         else cells (or_empty loaded) k)"
    by (simp add: normalize_cells [OF df])
  ultimately show ?thesis
    using df normalize_columns [OF df] normalize_length [OF df] by blast
qed

lemma columns_refund_sheet:
  "columns refund_sheet = [''Date'', ''Category'', ''Amount'', ''Notes'', ''Gender'', ''Shop'']"
  by (simp add: refund_sheet_def DataFrame_def Let_def)

text \<open>
  Claim C4 as stated fails: the spreadsheet with the column Shop keeps it, so the
  output has a sixth column.
\<close>

theorem extra_column_kept:
  "map_option columns (normalize typed_only (Some refund_sheet)) =
     Some [''Date'', ''Category'', ''Amount'', ''Notes'', ''Gender'', ''Shop''] \<and>
   ''Shop'' \<notin> set required"
proof -
  obtain df where df: "normalize typed_only (Some refund_sheet) = Some df"
    using normalize_total by blast
  show ?thesis
    using normalize_columns [OF df] by (simp add: df or_empty_def columns_refund_sheet required_def)
qed

lemma cells_refund_sheet_Amount: "cells refund_sheet ''Amount'' = [Num (Some (- 250)), NaN]"
  by (simp add: cells_def refund_sheet_def DataFrame_def Let_def)

text \<open>
  Claim C2 as stated fails: the refund of -250 is stored as -250 (the missing amount
  of the second row is stored as 0).
\<close>

theorem negative_amount_kept:
  "map_option (\<lambda>df. cells df ''Amount'') (normalize typed_only (Some refund_sheet)) =
     Some [Num (Some (- 250)), Num (Some 0)] \<and> \<not> (0::real) \<le> - 250"
proof -
  obtain df where df: "normalize typed_only (Some refund_sheet) = Some df"
    using normalize_total by blast
  show ?thesis
    using normalize_cells [OF df, of "''Amount''"]
    by (simp add: df or_empty_def columns_refund_sheet cells_refund_sheet_Amount fillna0_def)
qed

text \<open>
  Claim C2, as the code has it. After normalisation every amount is a number, never a
  missing value: the number that \<^verbatim>\<open>pd.to_numeric\<close> reads, or 0 when it reads none (and
  0 throughout when the input has no Amount column). A number of the input is stored
  unchanged, whatever its sign. This stays so when a transaction is added, whose amount
  is stored as the form gives it.
\<close>

theorem stored_amounts:
  "\<exists>df. normalize L loaded = Some df \<and>
     list_all is_number (cells (submitted df submit) ''Amount'') \<and>
     cells df ''Amount'' =
       (if ''Amount'' \<in> set (columns (or_empty loaded))
        then map (\<lambda>v. Num (Some (case to_numeric L v of None \<Rightarrow> 0 | Some x \<Rightarrow> x)))
               (cells (or_empty loaded) ''Amount'')
        else replicate (length (rows (or_empty loaded))) (Num (Some 0))) \<and>
     (\<forall>i x. ''Amount'' \<in> set (columns (or_empty loaded)) \<and> i < length (rows (or_empty loaded)) \<and>
         cells (or_empty loaded) ''Amount'' ! i = Num (Some x)
         \<longrightarrow> cells df ''Amount'' ! i = Num (Some x)) \<and>
     (\<forall>t. cells (submitted df (Some t)) ''Amount'' = cells df ''Amount'' @ [Num (Some (amount t))])"
proof -
  obtain df where df: "normalize L loaded = Some df"
    using normalize_total by blast
  have f: "Num (fillna0 y) = Num (Some (case y of None \<Rightarrow> 0 | Some x \<Rightarrow> x))" for y
    by (cases y) (simp_all add: fillna0_def)
  have a: "cells df ''Amount'' =
       (if ''Amount'' \<in> set (columns (or_empty loaded))
        then map (\<lambda>v. Num (Some (case to_numeric L v of None \<Rightarrow> 0 | Some x \<Rightarrow> x)))
               (cells (or_empty loaded) ''Amount'')
        else replicate (length (rows (or_empty loaded))) (Num (Some 0)))"
    by (simp add: normalize_cells [OF df] f)
  have "ledger_ok (submitted df submit)"
    by (rule submitted_ledger_ok) (rule normalize_ledger_ok [OF df])
  then have b: "list_all is_number (cells (submitted df submit) ''Amount'')"
    by (simp add: ledger_ok_cells)
  have c: "cells df ''Amount'' ! i = Num (Some x)"
    if "''Amount'' \<in> set (columns (or_empty loaded))" "i < length (rows (or_empty loaded))"
       "cells (or_empty loaded) ''Amount'' ! i = Num (Some x)" for i x
    using that by (simp add: a)
  have d: "cells (submitted df (Some t)) ''Amount'' = cells df ''Amount'' @ [Num (Some (amount t))]" for t
    by (simp add: submitted_def cells_add_txn required_def cells_new_row_Amount)
  show ?thesis
    using df a b c d by blast
qed

text \<open>
  The refund of the spreadsheet is stored as it is.
\<close>

theorem stored_amounts_witness:
  "cells refund_sheet ''Amount'' ! 0 = Num (Some (- 250)) \<and>
   map_option (\<lambda>df. cells df ''Amount'' ! 0) (normalize typed_only (Some refund_sheet)) =
     Some (Num (Some (- 250)))"
proof -
  obtain df where df: "normalize typed_only (Some refund_sheet) = Some df"
     and *: "\<forall>i x. ''Amount'' \<in> set (columns (or_empty (Some refund_sheet))) \<and>
         i < length (rows (or_empty (Some refund_sheet))) \<and>
         cells (or_empty (Some refund_sheet)) ''Amount'' ! i = Num (Some x)
         \<longrightarrow> cells df ''Amount'' ! i = Num (Some x)"
    using stored_amounts [of typed_only "Some refund_sheet" None] by blast
  have "length (rows refund_sheet) = 2"
    by (simp add: refund_sheet_def DataFrame_def Let_def)
  then have "cells df ''Amount'' ! 0 = Num (Some (- 250))"
    using * [rule_format, of 0 "- 250"]
    by (simp add: or_empty_def columns_refund_sheet cells_refund_sheet_Amount)
  then show ?thesis
    by (simp add: df cells_refund_sheet_Amount)
qed

section \<open>The filter\<close>

lemma labels_eq:
  "c \<in> set (columns df) \<Longrightarrow>
   labels L df c d = Some (map (\<lambda>r. replace_str [] d (astype_str L (cell_at r c))) (rows df))"
  by (simp add: labels_def getcol_cells cells_def comp_def)

lemma those_map_Some: "those (map (\<lambda>x. Some (f x)) xs) = Some (map f xs)"
  by (induction xs) simp_all

lemma as_time_eq: "is_time c \<Longrightarrow> as_time c = Some (case c of Time t \<Rightarrow> t | _ \<Rightarrow> None)"
  by (cases c) simp_all

lemma as_num_eq: "is_number c \<Longrightarrow> as_num c = Some (case c of Num x \<Rightarrow> x | _ \<Rightarrow> None)"
  by (cases c) simp_all

lemma those_as_time:
  "list_all is_time cs \<Longrightarrow> those (map as_time cs) = Some (map (\<lambda>c. case c of Time t \<Rightarrow> t | _ \<Rightarrow> None) cs)"
proof -
  assume "list_all is_time cs"
  then have "map as_time cs = map (\<lambda>c. Some (case c of Time t \<Rightarrow> t | _ \<Rightarrow> None)) cs"
    by (simp add: list_all_iff as_time_eq)
  then show ?thesis by (simp only: those_map_Some)
qed

lemma those_as_num:
  "list_all is_number cs \<Longrightarrow> those (map as_num cs) = Some (map (\<lambda>c. case c of Num x \<Rightarrow> x | _ \<Rightarrow> None) cs)"
proof -
  assume "list_all is_number cs"
  then have "map as_num cs = map (\<lambda>c. Some (case c of Num x \<Rightarrow> x | _ \<Rightarrow> None)) cs"
    by (simp add: list_all_iff as_num_eq)
  then show ?thesis by (simp only: those_map_Some)
qed

lemma dtcol_eq:
  "c \<in> set (columns df) \<Longrightarrow> list_all is_time (cells df c) \<Longrightarrow>
   dtcol df c = Some (map (\<lambda>r. case cell_at r c of Time t \<Rightarrow> t | _ \<Rightarrow> None) (rows df))"
  by (simp add: dtcol_def getcol_cells those_as_time) (simp add: cells_def comp_def)

lemma numcol_eq:
  "c \<in> set (columns df) \<Longrightarrow> list_all is_number (cells df c) \<Longrightarrow>
   numcol df c = Some (map (\<lambda>r. case cell_at r c of Num x \<Rightarrow> x | _ \<Rightarrow> None) (rows df))"
  by (simp add: numcol_def getcol_cells those_as_num) (simp add: cells_def comp_def)

lemma and_mask_map: "and_mask (map P xs) (map Q xs) = map (\<lambda>x. P x \<and> Q x) xs"
  by (induction xs) (simp_all add: and_mask_def)

lemma loc_map: "loc df (map P (rows df)) = df\<lparr>rows := filter P (rows df)\<rparr>"
proof -
  have "map fst (filter snd (zip xs (map P xs))) = filter P xs" for xs :: "row list"
    by (induction xs) simp_all
  then show ?thesis by (simp add: loc_def)
qed

lemma ledger_ok_columns:
  "ledger_ok df \<Longrightarrow> ''Date'' \<in> set (columns df) \<and> ''Category'' \<in> set (columns df) \<and>
     ''Amount'' \<in> set (columns df) \<and> ''Notes'' \<in> set (columns df) \<and> ''Gender'' \<in> set (columns df)"
  by (simp add: ledger_ok_cells required_def)

lemma apply_filters_eq:
  assumes "ledger_ok df"
  shows "apply_filters L spec df =
     Some (df\<lparr>rows := filter
        (\<lambda>r. (replace_str [] ''(empty)'' (astype_str L (cell_at r ''Category'')) \<in> set (selected_cats spec) \<and>
              replace_str [] ''Not specified'' (astype_str L (cell_at r ''Gender'')) \<in> set (selected_genders spec)) \<and>
             (case (case cell_at r ''Date'' of Time t \<Rightarrow> t | _ \<Rightarrow> None) of
                None \<Rightarrow> False
              | Some t \<Rightarrow> (fst (dr spec), 0) \<le> t \<and> t \<le> (snd (dr spec), 0)))
        (rows df)\<rparr>)"
proof -
  note c = ledger_ok_columns [OF assms]
  have d: "list_all is_time (cells df ''Date'')"
    using assms by (simp add: ledger_ok_cells)
  show ?thesis
    unfolding apply_filters_def Let_def
    by (simp add: labels_eq c dtcol_eq d isin_def between_def and_mask_map loc_map)
qed

lemma set_unique [simp]: "set (unique xs) = set xs"
  by (induction xs rule: unique.induct) auto


lemma default_spec_eq:
  assumes "ledger_ok df"
  shows "default_spec L today df =
     Some \<lparr>selected_cats =
             sort (unique (map (\<lambda>r. replace_str [] ''(empty)'' (astype_str L (cell_at r ''Category''))) (rows df))),
           selected_genders =
             sort (unique (map (\<lambda>r. replace_str [] ''Not specified'' (astype_str L (cell_at r ''Gender''))) (rows df))),
           dr = default_dr today (map (\<lambda>r. case cell_at r ''Date'' of Time t \<Rightarrow> t | _ \<Rightarrow> None) (rows df))\<rparr>"
proof -
  note c = ledger_ok_columns [OF assms]
  have d: "list_all is_time (cells df ''Date'')"
    using assms by (simp add: ledger_ok_cells)
  show ?thesis
    unfolding default_spec_def cats_all_def genders_all_def
    by (simp add: labels_eq c dtcol_eq d)
qed




lemma ledger_ok_sheet: "ledger_ok sheet"
  by (simp add: ledger_ok_def sheet_def DataFrame_def Let_def required_def)




text \<open>For a date without time of day, lying between the two timestamps is lying
  between the two days.\<close>

lemma day_between:
  fixes a b d :: date
  shows "((a, 0::nat) \<le> (d, 0) \<and> (d, 0::nat) \<le> (b, 0)) = (a \<le> d \<and> d \<le> b)"
  by auto


lemma cells_sheet_Category:
  "cells sheet ''Category'' = [Str ''Groceries'', Str ''Transport'', Str ''Utility'']"
  by (simp add: cells_def sheet_def DataFrame_def Let_def)


section \<open>The filtered table and its key figures\<close>

lemma cells_setcol_map:
  "cells (setcol df c (map h (rows df))) k = (if k = c then map h (rows df) else cells df k)"
  by (simp add: cells_def rows_setcol_map comp_def)

lemma length_rows_setcol_map [simp]:
  "length (rows (setcol df c (map h (rows df)))) = length (rows df)"
  by (simp add: rows_setcol_map)

lemma time_to_datetime: "is_time c \<Longrightarrow> Time (to_datetime L c) = c"
  by (cases c) simp_all

lemma cells_ensure_time:
  assumes "c \<in> set (columns df)" and "list_all is_time (cells df c)"
  shows "cells (ensure_datetime_col L df c) k = cells df k"
proof -
  have "map (\<lambda>v. Time (to_datetime L v)) (cells df c) = cells df c"
    using assms(2) by (simp add: list_all_iff time_to_datetime map_idI)
  then show ?thesis
    using assms(1) by (simp add: cells_ensure)
qed

lemma add_month_eq:
  assumes "ledger_ok dff0"
  shows "\<exists>f. add_month L dff0 = Some f \<and>
     columns f = (if ''Month'' \<in> set (columns dff0) then columns dff0 else columns dff0 @ [''Month'']) \<and>
     length (rows f) = length (rows dff0) \<and>
     (\<forall>k. k \<noteq> ''Month'' \<longrightarrow> cells f k = cells dff0 k) \<and>
     cells f ''Month'' =
       (if rows dff0 \<noteq> [] \<and> list_ex (\<lambda>c. c \<noteq> NaT) (cells dff0 ''Date'')
        then map (\<lambda>c. Str (period_month (case c of Time t \<Rightarrow> t | _ \<Rightarrow> None))) (cells dff0 ''Date'')
        else replicate (length (rows dff0)) (Str []))"
proof -
  define e where "e = ensure_datetime_col L dff0 ''Date''"
  have c: "''Date'' \<in> set (columns dff0)" and t: "list_all is_time (cells dff0 ''Date'')"
    using assms by (simp_all add: ledger_ok_cells required_def)
  have ce: "cells e k = cells dff0 k" for k
    unfolding e_def by (rule cells_ensure_time [OF c t])
  have cole: "columns e = columns dff0"
    unfolding e_def using c by (simp add: columns_ensure)
  have le: "length (rows e) = length (rows dff0)"
    unfolding e_def by simp
  have te: "list_all is_time (cells e ''Date'')"
    using t by (simp add: ce)
  have dt: "dtcol e ''Date'' = Some (map (\<lambda>r. case cell_at r ''Date'' of Time t \<Rightarrow> t | _ \<Rightarrow> None) (rows e))"
    by (rule dtcol_eq) (simp_all add: cole c te)
  have ne: "(rows e \<noteq> []) = (rows dff0 \<noteq> [])"
    using le by (metis length_0_conv)
  have ex: "list_ex (\<lambda>d. d \<noteq> None) (map (\<lambda>r. case cell_at r ''Date'' of Time t \<Rightarrow> t | _ \<Rightarrow> None) (rows e))
        = list_ex (\<lambda>c. c \<noteq> NaT) (cells dff0 ''Date'')"
  proof -
    have "(case c of Time t \<Rightarrow> t | _ \<Rightarrow> None) \<noteq> None \<longleftrightarrow> c \<noteq> NaT" if "is_time c" for c
      using that by (cases c) simp_all
    then have "list_ex (\<lambda>c. (case c of Time t \<Rightarrow> t | _ \<Rightarrow> None) \<noteq> None) (cells e ''Date'')
        = list_ex (\<lambda>c. c \<noteq> NaT) (cells e ''Date'')"
      using te by (auto simp add: list_ex_iff list_all_iff)
    then show ?thesis
      by (simp add: ce [symmetric]) (simp add: cells_def list_ex_iff)
  qed
  define f where "f = (if rows dff0 \<noteq> [] \<and> list_ex (\<lambda>c. c \<noteq> NaT) (cells dff0 ''Date'')
      then setcol e ''Month'' (map (\<lambda>r. Str (period_month (case cell_at r ''Date'' of Time t \<Rightarrow> t | _ \<Rightarrow> None))) (rows e))
      else setcol_scalar e ''Month'' (Str []))"
  have am: "add_month L dff0 = Some f"
    unfolding add_month_def Let_def e_def [symmetric] dt bind.bind_lunit ne ex f_def
    by (simp only: map_map comp_def)
  have 1: "columns f = (if ''Month'' \<in> set (columns dff0) then columns dff0 else columns dff0 @ [''Month''])"
    by (simp add: f_def cole)
  have 2: "length (rows f) = length (rows dff0)"
    by (simp add: f_def le)
  have 3: "cells f k = cells dff0 k" if "k \<noteq> ''Month''" for k
    using that by (simp add: f_def cells_setcol_map cells_setcol_scalar ce)
  have 4: "cells f ''Month'' =
       (if rows dff0 \<noteq> [] \<and> list_ex (\<lambda>c. c \<noteq> NaT) (cells dff0 ''Date'')
        then map (\<lambda>c. Str (period_month (case c of Time t \<Rightarrow> t | _ \<Rightarrow> None))) (cells dff0 ''Date'')
        else replicate (length (rows dff0)) (Str []))"
  proof -
    have "map (\<lambda>r. Str (period_month (case cell_at r ''Date'' of Time t \<Rightarrow> t | _ \<Rightarrow> None))) (rows e)
        = map (\<lambda>c. Str (period_month (case c of Time t \<Rightarrow> t | _ \<Rightarrow> None))) (cells e ''Date'')"
      by (simp add: cells_def comp_def)
    then have m: "map (\<lambda>r. Str (period_month (case cell_at r ''Date'' of Time t \<Rightarrow> t | _ \<Rightarrow> None))) (rows e)
        = map (\<lambda>c. Str (period_month (case c of Time t \<Rightarrow> t | _ \<Rightarrow> None))) (cells dff0 ''Date'')"
      by (simp only: ce)
    have "cells f ''Month'' =
       (if rows dff0 \<noteq> [] \<and> list_ex (\<lambda>c. c \<noteq> NaT) (cells dff0 ''Date'')
        then map (\<lambda>r. Str (period_month (case cell_at r ''Date'' of Time t \<Rightarrow> t | _ \<Rightarrow> None))) (rows e)
        else replicate (length (rows dff0)) (Str []))"
      by (simp add: f_def cells_setcol_map cells_setcol_scalar le)
    then show ?thesis
      by (simp only: m)
  qed
  show ?thesis
    using am 1 2 3 4 by blast
qed

lemma ledger_ok_filter: "ledger_ok df \<Longrightarrow> ledger_ok (df\<lparr>rows := filter Q (rows df)\<rparr>)"
  by (simp add: ledger_ok_def list_all_iff)

lemma apply_filters_ok:
  assumes "ledger_ok df"
  shows "\<exists>dff0. apply_filters L spec df = Some dff0 \<and> ledger_ok dff0 \<and> columns dff0 = columns df \<and>
           NaT \<notin> set (cells dff0 ''Date'')"
proof -
  define Q where "Q = (\<lambda>r. (replace_str [] ''(empty)'' (astype_str L (cell_at r ''Category'')) \<in> set (selected_cats spec) \<and>
              replace_str [] ''Not specified'' (astype_str L (cell_at r ''Gender'')) \<in> set (selected_genders spec)) \<and>
             (case (case cell_at r ''Date'' of Time t \<Rightarrow> t | _ \<Rightarrow> None) of
                None \<Rightarrow> False
              | Some t \<Rightarrow> (fst (dr spec), 0) \<le> t \<and> t \<le> (snd (dr spec), 0)))"
  have a: "apply_filters L spec df = Some (df\<lparr>rows := filter Q (rows df)\<rparr>)"
    unfolding Q_def by (rule apply_filters_eq [OF assms])
  have n: "False" if "Q r" "cell_at r ''Date'' = NaT" for r
    using that unfolding Q_def by simp
  have "NaT \<notin> set (cells (df\<lparr>rows := filter Q (rows df)\<rparr>) ''Date'')"
    by (auto simp add: cells_def dest: n [OF _ sym])
  with a ledger_ok_filter [OF assms, of Q] show ?thesis by simp
qed

lemma filtered_ok:
  assumes "ledger_ok df"
  shows "\<exists>dff0 f. apply_filters L spec df = Some dff0 \<and> filtered L spec df = Some f \<and>
     ledger_ok dff0 \<and> ledger_ok f \<and>
     columns f = (if ''Month'' \<in> set (columns df) then columns df else columns df @ [''Month'']) \<and>
     length (rows f) = length (rows dff0) \<and>
     (\<forall>k. k \<noteq> ''Month'' \<longrightarrow> cells f k = cells dff0 k) \<and>
     NaT \<notin> set (cells f ''Date'')"
proof -
  obtain dff0 where a: "apply_filters L spec df = Some dff0" and ok: "ledger_ok dff0"
    and c: "columns dff0 = columns df" and n: "NaT \<notin> set (cells dff0 ''Date'')"
    using apply_filters_ok [OF assms] by blast
  obtain f where m: "add_month L dff0 = Some f"
    and cf: "columns f = (if ''Month'' \<in> set (columns dff0) then columns dff0 else columns dff0 @ [''Month''])"
    and lf: "length (rows f) = length (rows dff0)"
    and kf: "\<forall>k. k \<noteq> ''Month'' \<longrightarrow> cells f k = cells dff0 k"
    using add_month_eq [OF ok] by blast
  have "filtered L spec df = Some f"
    by (simp add: filtered_def a m)
  moreover have "ledger_ok f"
    using ok kf cf by (auto simp add: ledger_ok_cells)
  moreover have "NaT \<notin> set (cells f ''Date'')"
    using n kf by simp
  ultimately show ?thesis
    using a ok cf lf kf c by auto
qed

lemma dropna_map_Some [simp]: "dropna (map Some ys) = ys"
  by (induction ys) (simp_all add: dropna_def)

lemma numbers_cells:
  "list_all is_number cs \<Longrightarrow> \<exists>ys. cs = map (\<lambda>y. Num (Some y)) ys"
proof (induction cs)
  case Nil
  then show ?case by simp
next
  case (Cons c cs)
  then obtain ys where "cs = map (\<lambda>y. Num (Some y)) ys" by auto
  moreover obtain y where "c = Num (Some y)"
    using Cons.prems by (cases c rule: is_number.cases) simp_all
  ultimately have "c # cs = map (\<lambda>y. Num (Some y)) (y # ys)" by simp
  then show ?case ..
qed

lemma numcol_numbers:
  assumes "c \<in> set (columns f)" and "cells f c = map (\<lambda>y. Num (Some y)) ys"
  shows "numcol f c = Some (map Some ys)"
  using assms by (simp add: numcol_def getcol_cells those_map_Some comp_def)

lemma kpis_of_numbers:
  assumes "''Amount'' \<in> set (columns f)" and "cells f ''Amount'' = map (\<lambda>y. Num (Some y)) ys"
  shows "compute_kpis f =
     Some \<lparr>kpi_total = sum_list ys,
           kpi_avg = Some (if ys = [] then 0 else sum_list ys / real (length ys)),
           kpi_count = length ys,
           kpi_max = Some (if ys = [] then 0 else Max (set ys))\<rparr>"
proof -
  have l: "length (rows f) = length ys"
    using assms(2) by (metis length_cells length_map)
  have mx: "series_max (map Some ys) = Some (Max (set ys))" if ne: "ys \<noteq> []"
  proof -
    obtain y ys' where y: "ys = y # ys'" using ne by (cases ys) auto
    show ?thesis
      unfolding y series_max_def dropna_map_Some list.case Max.set_eq_fold ..
  qed
  have mean: "series_mean (map Some ys) = Some (sum_list ys / real (length ys))" if ne: "ys \<noteq> []"
  proof -
    obtain y ys' where y: "ys = y # ys'" using ne by (cases ys) auto
    show ?thesis
      unfolding y series_mean_def dropna_map_Some list.case ..
  qed
  have sm: "series_sum (map Some ys) = sum_list ys"
    by (simp only: series_sum_def dropna_map_Some)
  show ?thesis
    unfolding compute_kpis_def numcol_numbers [OF assms] bind.bind_lunit Let_def l sm
    by (cases "ys = []") (simp_all add: mx mean)
qed



section \<open>The five largest transactions\<close>

lemma insort_key_ties:
  fixes k :: "nat \<Rightarrow> real"
  assumes "sorted_wrt (\<lambda>i j. k i < k j \<or> (k i = k j \<and> i < j)) ys" and "\<forall>y\<in>set ys. x < y"
  shows "sorted_wrt (\<lambda>i j. k i < k j \<or> (k i = k j \<and> i < j)) (insort_key k x ys)"
  using assms
proof (induction ys)
  case Nil
  then show ?case by simp
next
  case (Cons y ys)
  show ?case
  proof (cases "k x \<le> k y")
    case True
    have "k x < k z \<or> (k x = k z \<and> x < z)" if "z \<in> set (y # ys)" for z
    proof -
      have "k y \<le> k z" using that Cons.prems(1) by auto
      moreover have "x < z" using that Cons.prems(2) by auto
      ultimately show ?thesis using True by auto
    qed
    then show ?thesis using True Cons.prems(1) by simp
  next
    case False
    have "sorted_wrt (\<lambda>i j. k i < k j \<or> (k i = k j \<and> i < j)) (insort_key k x ys)"
      using Cons by simp
    moreover have "k y < k z \<or> (k y = k z \<and> y < z)" if "z \<in> set (insort_key k x ys)" for z
      using that False Cons.prems(1) by (auto simp add: set_insort_key)
    ultimately show ?thesis using False by simp
  qed
qed

lemma sort_key_ties:
  fixes k :: "nat \<Rightarrow> real"
  assumes "sorted_wrt (<) xs"
  shows "sorted_wrt (\<lambda>i j. k i < k j \<or> (k i = k j \<and> i < j)) (sort_key k xs)"
  using assms
proof (induction xs)
  case Nil
  then show ?case by simp
next
  case (Cons x xs)
  then have "sorted_wrt (\<lambda>i j. k i < k j \<or> (k i = k j \<and> i < j)) (sort_key k xs)"
    and "\<forall>y\<in>set (sort_key k xs). x < y"
    by simp_all
  then show ?case
    by (simp add: insort_key_ties)
qed

lemma nlargest_indexer_numbers:
  "nlargest_indexer n (map Some ys) = take n (sort_key (\<lambda>i. - the (map Some ys ! i)) [0..<length ys])"
proof -
  have "filter (\<lambda>i. map Some ys ! i \<noteq> None) [0..<length ys] = [0..<length ys]"
    by (rule filter_True) simp
  moreover have "filter (\<lambda>i. map Some ys ! i = None) [0..<length ys] = []"
    by (rule filter_False) simp
  ultimately show ?thesis
    by (simp add: nlargest_indexer_def)
qed

lemma sorted_wrt_upt: "sorted_wrt (<) [0..<n]"
  by (simp add: sorted_wrt_iff_nth_less)

lemma nlargest_indexer_spec:
  fixes ys :: "real list"
  defines "is \<equiv> nlargest_indexer 5 (map Some ys)"
  shows "distinct is" and "set is \<subseteq> {..<length ys}" and "length is = min 5 (length ys)"
    and "sorted_wrt (\<lambda>i j. ys ! j < ys ! i \<or> (ys ! i = ys ! j \<and> i < j)) is"
    and "\<forall>k<length ys. k \<notin> set is \<longrightarrow> (\<forall>i\<in>set is. ys ! k < ys ! i \<or> (ys ! i = ys ! k \<and> i < k))"
    and "length ys \<le> 5 \<longrightarrow> mset is = mset [0..<length ys]"
proof -
  define k where "k = (\<lambda>i. - the (map Some ys ! i))"
  define S where "S = sort_key k [0..<length ys]"
  have "is": "is = take 5 S"
    unfolding is_def S_def k_def by (rule nlargest_indexer_numbers)
  have kk: "k i = - ys ! i" if "i < length ys" for i
    using that by (simp add: k_def)
  have setS: "set S = {..<length ys}" and dS: "distinct S" and lS: "length S = length ys"
    by (auto simp add: S_def)
  have "sorted_wrt (\<lambda>i j. k i < k j \<or> (k i = k j \<and> i < j)) S"
    unfolding S_def by (rule sort_key_ties) (rule sorted_wrt_upt)
  then have sS: "sorted_wrt (\<lambda>i j. ys ! j < ys ! i \<or> (ys ! i = ys ! j \<and> i < j)) S"
  proof (rule sorted_wrt_mono_rel [rotated])
    fix i j assume "i \<in> set S" "j \<in> set S" "k i < k j \<or> (k i = k j \<and> i < j)"
    then show "ys ! j < ys ! i \<or> (ys ! i = ys ! j \<and> i < j)"
      using setS kk by auto
  qed
  show "distinct is" by (simp add: "is" dS)
  show "set is \<subseteq> {..<length ys}"
    using set_take_subset [of 5 S] by (simp add: "is" setS)
  show "length is = min 5 (length ys)" by (simp add: "is" lS min.commute)
  show "sorted_wrt (\<lambda>i j. ys ! j < ys ! i \<or> (ys ! i = ys ! j \<and> i < j)) is"
    unfolding "is" using sS by (rule sorted_wrt_take)
  have app: "sorted_wrt (\<lambda>i j. ys ! j < ys ! i \<or> (ys ! i = ys ! j \<and> i < j)) (take 5 S @ drop 5 S)"
    using sS by simp
  show "\<forall>k<length ys. k \<notin> set is \<longrightarrow> (\<forall>i\<in>set is. ys ! k < ys ! i \<or> (ys ! i = ys ! k \<and> i < k))"
  proof (intro allI impI ballI)
    fix c i assume c: "c < length ys" "c \<notin> set is" and i: "i \<in> set is"
    have "set S = set (take 5 S) \<union> set (drop 5 S)"
      by (metis append_take_drop_id set_append)
    moreover have "c \<in> set S" "c \<notin> set (take 5 S)"
      using c setS by (simp_all add: "is")
    ultimately have "c \<in> set (drop 5 S)"
      by blast
    then show "ys ! c < ys ! i \<or> (ys ! i = ys ! c \<and> i < c)"
      using app i unfolding sorted_wrt_append "is" by blast
  qed
  show "length ys \<le> 5 \<longrightarrow> mset is = mset [0..<length ys]"
    by (simp add: "is" lS S_def)
qed

lemma project_eq:
  "set cols \<subseteq> set (columns df) \<Longrightarrow>
   project df cols = Some \<lparr>columns = cols, rows = map (\<lambda>r. r |` set cols) (rows df)\<rparr>"
  by (auto simp add: project_def list_all_iff)

lemma top5_numbers:
  assumes "set required \<subseteq> set (columns f)" and "cells f ''Amount'' = map (\<lambda>y. Num (Some y)) ys"
  shows "top5 f = Some \<lparr>columns = required,
      rows = map (\<lambda>i. (rows f ! i) |` set required) (nlargest_indexer 5 (map Some ys))\<rparr>"
proof -
  have a: "''Amount'' \<in> set (columns f)"
    using assms(1) by (auto simp add: required_def)
  show ?thesis
    unfolding top5_def nlargest_def numcol_numbers [OF a assms(2)] bind.bind_lunit
    using assms(1) by (simp add: project_eq comp_def)
qed

text \<open>
  Claim C7. On a table of the page and for every filter, \<open>top5\<close> of the filtered table
  \<open>f\<close> does not raise; its rows are the rows of \<open>f\<close> at the positions \<open>is\<close>, cut to the
  five required columns, where \<open>is\<close> holds \<open>min 5 (length (rows f))\<close> different positions,
  in the order of decreasing amount with equal amounts in the order of the table, and
  every position left out has a smaller amount than each position taken, or the same amount
  and a later place in the table. A table of at most five records is returned whole:
  the same records, as a multiset.
\<close>

theorem top5_of_filtered:
  assumes "ledger_ok df"
  shows "\<exists>f ys t is. filtered L spec df = Some f \<and>
     cells f ''Amount'' = map (\<lambda>y. Num (Some y)) ys \<and>
     top5 f = Some t \<and> columns t = required \<and>
     rows t = map (\<lambda>i. (rows f ! i) |` set required) is \<and>
     distinct is \<and> set is \<subseteq> {..<length (rows f)} \<and> length is = min 5 (length (rows f)) \<and>
     sorted_wrt (\<lambda>i j. ys ! j < ys ! i \<or> (ys ! i = ys ! j \<and> i < j)) is \<and>
     (\<forall>k<length (rows f). k \<notin> set is \<longrightarrow>
        (\<forall>i\<in>set is. ys ! k < ys ! i \<or> (ys ! i = ys ! k \<and> i < k))) \<and>
     (length (rows f) \<le> 5 \<longrightarrow>
        mset (rows t) = mset (map (\<lambda>r. r |` set required) (rows f)))"
proof -
  obtain f where f: "filtered L spec df = Some f" and ok: "ledger_ok f"
    using filtered_ok [OF assms] by blast
  obtain ys where ys: "cells f ''Amount'' = map (\<lambda>y. Num (Some y)) ys"
    using ok numbers_cells by (auto simp add: ledger_ok_cells)
  have c: "set required \<subseteq> set (columns f)"
    using ok by (simp add: ledger_ok_cells)
  have l: "length ys = length (rows f)"
    using ys by (metis length_cells length_map)
  define "is" where "is = nlargest_indexer 5 (map Some ys)"
  define t where "t = \<lparr>columns = required, rows = map (\<lambda>i. (rows f ! i) |` set required) is\<rparr>"
  have t: "top5 f = Some t"
    unfolding t_def is_def by (rule top5_numbers [OF c ys])
  note s = nlargest_indexer_spec [of ys, folded is_def, unfolded l]
  have "mset (rows t) = mset (map (\<lambda>r. r |` set required) (rows f))" if "length (rows f) \<le> 5"
  proof -
    have "mset is = mset [0..<length (rows f)]"
      using s(6) that by simp
    then have "mset (map (\<lambda>i. (rows f ! i) |` set required) is)
        = mset (map (\<lambda>i. (rows f ! i) |` set required) [0..<length (rows f)])"
      by (simp only: mset_map)
    also have "map (\<lambda>i. (rows f ! i) |` set required) [0..<length (rows f)]
        = map (\<lambda>r. r |` set required) (map (\<lambda>i. rows f ! i) [0..<length (rows f)])"
      by (simp add: comp_def)
    also have "\<dots> = map (\<lambda>r. r |` set required) (rows f)"
      by (simp only: map_nth)
    finally show ?thesis by (simp add: t_def)
  qed
  then show ?thesis
    using f ys t s(1-5) by (intro exI [of _ f] exI [of _ ys] exI [of _ t] exI [of _ "is"]) (simp add: t_def)
qed

lemma ledger_ok_ties_sheet: "ledger_ok ties_sheet"
  by (simp add: ledger_ok_def ties_sheet_def DataFrame_def Let_def required_def)

text \<open>
  Of the seven transactions with the amounts 3, 7, 7, 1, 9, 3, 3 the five largest
  are e, b, c, a, f: the two of amount 7 in their order, and the first two of amount 3.
\<close>

theorem top5_of_filtered_witness:
  "ledger_ok ties_sheet \<and>
   (filtered typed_only
      \<lparr>selected_cats = [''a'', ''b'', ''c'', ''d'', ''e'', ''f'', ''g''],
       selected_genders = [''Other''], dr = ((2025, 4, 1), (2025, 4, 1))\<rparr> ties_sheet \<bind> (\<lambda>f.
        top5 f \<bind> (\<lambda>t. Some (cells t ''Category'', cells t ''Amount'')))) =
   Some ([Str ''e'', Str ''b'', Str ''c'', Str ''a'', Str ''f''],
         [Num (Some 9), Num (Some 7), Num (Some 7), Num (Some 3), Num (Some 3)])"
proof -
  have e: "(filtered typed_only
      \<lparr>selected_cats = [''a'', ''b'', ''c'', ''d'', ''e'', ''f'', ''g''],
       selected_genders = [''Other''], dr = ((2025, 4, 1), (2025, 4, 1))\<rparr> ties_sheet \<bind> (\<lambda>f.
        top5 f \<bind> (\<lambda>t. Some (cells t ''Category'', cells t ''Amount'')))) =
   Some ([Str ''e'', Str ''b'', Str ''c'', Str ''a'', Str ''f''],
         [Num (Some 9), Num (Some 7), Num (Some 7), Num (Some 3), Num (Some 3)])"
    by code_simp
  obtain f t where "filtered typed_only
      \<lparr>selected_cats = [''a'', ''b'', ''c'', ''d'', ''e'', ''f'', ''g''],
       selected_genders = [''Other''], dr = ((2025, 4, 1), (2025, 4, 1))\<rparr> ties_sheet = Some f"
    and "top5 f = Some t"
    using top5_of_filtered [OF ledger_ok_ties_sheet] by blast
  with e ledger_ok_ties_sheet show ?thesis by simp
qed

section \<open>The exported file\<close>

lemma csv_records_eq:
  "csv_records L f = columns f #
     map (\<lambda>i. map (\<lambda>c. csv_column L (cells f c) ! i) (columns f)) [0..<length (rows f)]"
  by (simp add: csv_records_def Let_def cells_def comp_def)

lemma csv_column_dates:
  assumes "list_all is_time cs" and "list_all date_only cs" and "NaT \<notin> set cs" and "i < length cs"
  shows "\<exists>t. cs ! i = Time (Some t) \<and> csv_column L cs ! i = strftime_ymd t"
proof -
  have "cs ! i \<in> set cs"
    using assms(4) by simp
  then have "is_time (cs ! i)" "date_only (cs ! i)" "cs ! i \<noteq> NaT"
    using assms(1,2,3) by (auto simp add: list_all_iff)
  then obtain t where t: "cs ! i = Time (Some t)"
    by (cases "cs ! i" rule: csv_date.cases) simp_all
  have "csv_column L cs ! i = csv_date (cs ! i)"
    using assms by (simp add: csv_column_def)
  with t show ?thesis by simp
qed

text \<open>
  Claim C1, as the code has it. On a table of the page and for every filter, the
  download button offers, under the name \<open>filtered_expenses.csv\<close>, the UTF-8 encoding of
  the csv text of these records: first the header, which is the columns of the
  filtered table, that is the columns of the table followed by Month (unless the
  table has a Month column already); so it holds the five required columns, Month,
  and every other column of the table. Then one record per row with one field per
  column. When no date of the filtered table has a time of day, the Date field of
  every record is the date as \<^verbatim>\<open>%Y-%m-%d\<close>; no exported record is without a date.
\<close>

theorem export_of_filtered:
  assumes "ledger_ok df"
  shows "\<exists>f recs. filtered L spec df = Some f \<and>
     download_button L f =
       \<lparr>data = encode_utf8 (csv_writer L (columns f # recs)),
        file_name = ''filtered_expenses.csv'', mime = ''text/csv''\<rparr> \<and>
     columns f = (if ''Month'' \<in> set (columns df) then columns df else columns df @ [''Month'']) \<and>
     set required \<subseteq> set (columns f) \<and> ''Month'' \<in> set (columns f) \<and>
     length recs = length (rows f) \<and>
     (\<forall>i<length recs. length (recs ! i) = length (columns f)) \<and>
     (list_all date_only (cells f ''Date'') \<longrightarrow>
        (\<forall>i<length recs. \<forall>p<length (columns f). columns f ! p = ''Date'' \<longrightarrow>
           (\<exists>t. cells f ''Date'' ! i = Time (Some t) \<and> recs ! i ! p = strftime_ymd t)))"
proof -
  obtain f where f: "filtered L spec df = Some f" and ok: "ledger_ok f"
    and cf: "columns f = (if ''Month'' \<in> set (columns df) then columns df else columns df @ [''Month''])"
    and n: "NaT \<notin> set (cells f ''Date'')"
    using filtered_ok [OF assms] by blast
  define recs where "recs = map (\<lambda>i. map (\<lambda>c. csv_column L (cells f c) ! i) (columns f)) [0..<length (rows f)]"
  have d: "download_button L f =
       \<lparr>data = encode_utf8 (csv_writer L (columns f # recs)),
        file_name = ''filtered_expenses.csv'', mime = ''text/csv''\<rparr>"
    by (simp add: download_button_def to_csv_bytes_def to_csv_def csv_records_eq recs_def)
  have r: "set required \<subseteq> set (columns f)" and t: "list_all is_time (cells f ''Date'')"
    using ok by (simp_all add: ledger_ok_cells)
  have m: "''Month'' \<in> set (columns f)"
    by (simp add: cf)
  have l: "length recs = length (rows f)"
    by (simp add: recs_def)
  have w: "\<forall>i<length recs. length (recs ! i) = length (columns f)"
    by (simp add: recs_def)
  have dates: "\<exists>t. cells f ''Date'' ! i = Time (Some t) \<and> recs ! i ! p = strftime_ymd t"
    if "list_all date_only (cells f ''Date'')" "i < length recs" "p < length (columns f)"
       "columns f ! p = ''Date''" for i p
  proof -
    have "recs ! i ! p = csv_column L (cells f ''Date'') ! i"
      using that(2,3,4) by (simp add: recs_def)
    moreover have "i < length (cells f ''Date'')"
      using that(2) l by simp
    ultimately show ?thesis
      using csv_column_dates [OF t that(1) n, of i L] by simp
  qed
  show ?thesis
    using f d cf r m l w dates by blast
qed

text \<open>
  Claim C1 as stated fails: the header of the export has a sixth column, Month.
\<close>

theorem export_has_month:
  "(filtered typed_only
      \<lparr>selected_cats = [''Groceries'', ''Utility''], selected_genders = [''Not specified''],
       dr = ((2025, 1, 5), (2025, 1, 31))\<rparr> sheet \<bind> (\<lambda>f. Some (hd (csv_records typed_only f)))) =
   Some [''Date'', ''Category'', ''Amount'', ''Notes'', ''Gender'', ''Month''] \<and>
   ''Month'' \<notin> set required"
  by code_simp

text \<open>
  The export of the groceries of January: the header with Month, and one record,
  whose first field is the date as 2025-01-05.
\<close>

theorem export_of_filtered_witness:
  "ledger_ok sheet \<and>
   (filtered typed_only
      \<lparr>selected_cats = [''Groceries'', ''Utility''], selected_genders = [''Not specified''],
       dr = ((2025, 1, 5), (2025, 1, 31))\<rparr> sheet \<bind> (\<lambda>f.
         Some (list_all date_only (cells f ''Date''), file_name (download_button typed_only f),
               hd (csv_records typed_only f), map hd (tl (csv_records typed_only f))))) =
   Some (True, ''filtered_expenses.csv'',
         [''Date'', ''Category'', ''Amount'', ''Notes'', ''Gender'', ''Month''],
         [''2025-01-05''])"
proof -
  have e: "(filtered typed_only
      \<lparr>selected_cats = [''Groceries'', ''Utility''], selected_genders = [''Not specified''],
       dr = ((2025, 1, 5), (2025, 1, 31))\<rparr> sheet \<bind> (\<lambda>f.
         Some (list_all date_only (cells f ''Date''), file_name (download_button typed_only f),
               hd (csv_records typed_only f), map hd (tl (csv_records typed_only f))))) =
   Some (True, ''filtered_expenses.csv'',
         [''Date'', ''Category'', ''Amount'', ''Notes'', ''Gender'', ''Month''],
         [''2025-01-05''])"
    by code_simp
  obtain f and recs :: "string list list" where "filtered typed_only
      \<lparr>selected_cats = [''Groceries'', ''Utility''], selected_genders = [''Not specified''],
       dr = ((2025, 1, 5), (2025, 1, 31))\<rparr> sheet = Some f"
    and "file_name (download_button typed_only f) = ''filtered_expenses.csv''"
    and "length recs = length (rows f)"
    using export_of_filtered [OF ledger_ok_sheet, of typed_only] by force
  with e ledger_ok_sheet show ?thesis by simp
qed

section \<open>A run of the page\<close>

lemma normalize_None: "normalize L None = Some \<lparr>columns = required, rows = []\<rparr>"
  by (simp add: normalize_def or_empty_def added_columns_def add_missing_def required_def
      ensure_datetime_col_def getcol_def setcol_def)

lemma default_spec_empty:
  "default_spec L today \<lparr>columns = required, rows = []\<rparr> =
     Some \<lparr>selected_cats = [], selected_genders = [], dr = (today, today)\<rparr>"
  by (simp add: default_spec_def cats_all_def genders_all_def labels_def getcol_def required_def
      dtcol_def default_dr_def dropna_def)

lemma filtered_empty:
  "filtered L sp \<lparr>columns = required, rows = []\<rparr> =
     Some \<lparr>columns = required @ [''Month''], rows = []\<rparr>"
  by (simp add: filtered_def apply_filters_def labels_def getcol_def required_def dtcol_def
      isin_def between_def and_mask_def loc_def add_month_def ensure_datetime_col_def setcol_def
      setcol_scalar_def)

lemma kpis_empty:
  "compute_kpis \<lparr>columns = required @ [''Month''], rows = []\<rparr> =
     Some \<lparr>kpi_total = 0, kpi_avg = Some 0, kpi_count = 0, kpi_max = Some 0\<rparr>"
  by (simp add: compute_kpis_def numcol_def getcol_def required_def series_sum_def dropna_def)

lemma trend_empty:
  "trend L \<lparr>columns = required @ [''Month''], rows = []\<rparr> =
     Some (Info ''No monthly trend data available for current filters.'')"
  by (simp add: trend_def getcol_def required_def)

lemma top_items_empty: "top_items \<lparr>columns = required @ [''Month''], rows = []\<rparr> = Some None"
  by (simp add: top_items_def)

lemma raw_data_empty:
  "raw_data b \<lparr>columns = required @ [''Month''], rows = []\<rparr> =
     Some (if b then Some \<lparr>columns = required @ [''Month''], rows = []\<rparr> else None)"
  by (simp add: raw_data_def date_as_text_def required_def dtcol_def getcol_def setcol_def)

lemma cat_options_empty:
  "cat_options L \<lparr>columns = required, rows = []\<rparr> =
     Some (sort [''Groceries'', ''Transport'', ''Entertainment'', ''Utility'', ''Health'', ''Travel''])"
  by (simp add: cat_options_def getcol_def required_def)

lemma date_as_text_ok:
  assumes "list_all is_time (cells df ''Date'')"
  shows "\<exists>t. date_as_text df = Some t"
  using assms by (simp add: date_as_text_def dtcol_def getcol_cells those_as_time)

lemma load_unreadable:
  assumes "(if endswith (lower (upload_name u)) ''.csv'' then read_csv u else read_excel u) = Inl e"
  shows "load_data (Upload (Some u)) = (None, [''Error reading file: '' @ e])"
  using assms by (simp split: if_splits)

lemma trend_ok:
  assumes "ledger_ok f" and "''Month'' \<in> set (columns f)"
  shows "\<exists>m. trend L f = Some m"
proof -
  obtain ys where ys: "cells f ''Amount'' = map (\<lambda>y. Num (Some y)) ys"
    using assms(1) numbers_cells by (auto simp add: ledger_ok_cells)
  have a: "''Amount'' \<in> set (columns f)"
    using assms(1) by (simp add: ledger_ok_cells required_def)
  show ?thesis
    unfolding trend_def by (simp add: getcol_cells assms(2) numcol_numbers [OF a ys])
qed

lemma top_items_ok:
  assumes "ledger_ok f"
  shows "\<exists>t. top_items f = Some t"
proof -
  obtain ys where ys: "cells f ''Amount'' = map (\<lambda>y. Num (Some y)) ys"
    using assms numbers_cells by (auto simp add: ledger_ok_cells)
  have c: "set required \<subseteq> set (columns f)"
    using assms by (simp add: ledger_ok_cells)
  have l: "length ys = length (rows f)"
    using ys by (metis length_cells length_map)
  define "is" where "is = nlargest_indexer 5 (map Some ys)"
  define t where "t = \<lparr>columns = required, rows = map (\<lambda>i. (rows f ! i) |` set required) is\<rparr>"
  have t: "top5 f = Some t"
    unfolding t_def is_def by (rule top5_numbers [OF c ys])
  have sub: "set is \<subseteq> {..<length (rows f)}"
    using nlargest_indexer_spec(2) [of ys] by (simp add: is_def l)
  have "is_time (cell_at ((rows f ! i) |` set required) ''Date'')" if "i \<in> set is" for i
  proof -
    have "rows f ! i \<in> set (rows f)"
      using that sub by auto
    then have "is_time (cell_at (rows f ! i) ''Date'')"
      using assms by (simp add: ledger_ok_def list_all_iff)
    then show ?thesis
      by (simp add: cell_at_def restrict_map_def required_def)
  qed
  then have "list_all is_time (cells t ''Date'')"
    by (simp add: t_def cells_def list_all_iff)
  then obtain t' where "date_as_text t = Some t'"
    using date_as_text_ok by blast
  then show ?thesis
    by (simp add: top_items_def t top5_display_def)
qed

lemma run_page_total: "\<exists>p. run_page L today src submit w = Some p"
proof -
  obtain loaded errs where ld: "load_data src = (loaded, errs)"
    by (cases "load_data src")
  obtain df0 where n: "normalize L loaded = Some df0"
    using normalize_total by blast
  have ok: "ledger_ok (submitted df0 submit)"
    by (rule submitted_ledger_ok) (rule normalize_ledger_ok [OF n])
  have "''Category'' \<in> set (columns df0)"
    using normalize_ledger_ok [OF n] by (simp add: ledger_ok_cells required_def)
  then obtain cs where cs: "cat_options L df0 = Some cs"
    by (simp add: cat_options_def getcol_cells)
  obtain d where d: "default_spec L today (submitted df0 submit) = Some d"
    using default_spec_eq [OF ok] by blast
  obtain f where f: "filtered L (chosen w d) (submitted df0 submit) = Some f" and okf: "ledger_ok f"
    and cf: "columns f = (if ''Month'' \<in> set (columns (submitted df0 submit))
                then columns (submitted df0 submit) else columns (submitted df0 submit) @ [''Month''])"
    using filtered_ok [OF ok] by blast
  obtain ys where ys: "cells f ''Amount'' = map (\<lambda>y. Num (Some y)) ys"
    using okf numbers_cells by (auto simp add: ledger_ok_cells)
  have a: "''Amount'' \<in> set (columns f)"
    using okf by (simp add: ledger_ok_cells required_def)
  have m: "''Month'' \<in> set (columns f)"
    by (simp add: cf)
  obtain k where k: "compute_kpis f = Some k"
    using kpis_of_numbers [OF a ys] by blast
  obtain tr where tr: "trend L f = Some tr"
    using trend_ok [OF okf m] by blast
  obtain tp where tp: "top_items f = Some tp"
    using top_items_ok [OF okf] by blast
  have "list_all is_time (cells f ''Date'')"
    using okf by (simp add: ledger_ok_cells)
  then obtain t where "date_as_text f = Some t"
    using date_as_text_ok by blast
  then have "\<exists>r. raw_data (show_raw w) f = Some r"
    by (simp add: raw_data_def)
  then obtain r where r: "raw_data (show_raw w) f = Some r" ..
  show ?thesis
    by (simp add: run_page_def ld n cs Let_def d f k tr tp r)
qed

text \<open>
  Claim C9. When reading the uploaded file raises (with the message \<open>e\<close>), the run of
  the page does not raise, whatever the filter widgets hold: it shows the error
  \<open>Error reading file: e\<close>, works on the empty table with the five required columns,
  filters it to the empty table, shows 0 for every key figure, says that there is no
  data in both chart panels, makes no table of top items and, when asked for the raw
  data, shows the empty table. With a transaction submitted in the same run, the page
  does not raise either.
\<close>

theorem unreadable_upload:
  assumes "(if endswith (lower (upload_name u)) ''.csv'' then read_csv u else read_excel u) = Inl e"
  shows "(\<exists>p. run_page L today (Upload (Some u)) None w = Some p \<and>
            errors p = [''Error reading file: '' @ e] \<and>
            table p = \<lparr>columns = required, rows = []\<rparr> \<and>
            dff p = \<lparr>columns = required @ [''Month''], rows = []\<rparr> \<and>
            figures p = \<lparr>kpi_total = 0, kpi_avg = Some 0, kpi_count = 0, kpi_max = Some 0\<rparr> \<and>
            chart_info p = Some ''No data for the selected filters to display chart.'' \<and>
            monthly p = Info ''No monthly trend data available for current filters.'' \<and>
            top p = None \<and>
            raw p = (if show_raw w then Some \<lparr>columns = required @ [''Month''], rows = []\<rparr> else None)) \<and>
         (\<forall>submit. \<exists>p. run_page L today (Upload (Some u)) submit w = Some p \<and>
            errors p = [''Error reading file: '' @ e])"
proof -
  have 1: "\<exists>p. run_page L today (Upload (Some u)) None w = Some p \<and>
            errors p = [''Error reading file: '' @ e] \<and>
            table p = \<lparr>columns = required, rows = []\<rparr> \<and>
            dff p = \<lparr>columns = required @ [''Month''], rows = []\<rparr> \<and>
            figures p = \<lparr>kpi_total = 0, kpi_avg = Some 0, kpi_count = 0, kpi_max = Some 0\<rparr> \<and>
            chart_info p = Some ''No data for the selected filters to display chart.'' \<and>
            monthly p = Info ''No monthly trend data available for current filters.'' \<and>
            top p = None \<and>
            raw p = (if show_raw w then Some \<lparr>columns = required @ [''Month''], rows = []\<rparr> else None)"
    unfolding run_page_def load_unreadable [OF assms]
    by (simp add: normalize_None cat_options_empty submitted_def default_spec_empty filtered_empty
        kpis_empty trend_empty top_items_empty raw_data_empty breakdown_def del: sort_key_simps)
  have 2: "\<exists>p. run_page L today (Upload (Some u)) submit w = Some p \<and>
            errors p = [''Error reading file: '' @ e]" for submit
  proof -
    obtain p where p: "run_page L today (Upload (Some u)) submit w = Some p"
      using run_page_total by blast
    then have "errors p = [''Error reading file: '' @ e]"
      unfolding run_page_def load_unreadable [OF assms]
      by (auto simp add: Let_def split: Option.bind_splits)
    with p show ?thesis by blast
  qed
  show ?thesis
    using 1 2 by blast
qed

text \<open>
  An upload named \<open>expenses.CSV\<close> that \<^verbatim>\<open>pd.read_csv\<close> cannot read.
\<close>

theorem unreadable_upload_witness:
  "endswith (lower ''expenses.CSV'') ''.csv'' \<and>
   map_option (\<lambda>p. (errors p, columns (table p), length (rows (table p)), figures p, monthly p, top p))
     (run_page typed_only (2026, 11, 4)
        (Upload (Some \<lparr>upload_name = ''expenses.CSV'',
                       read_csv = Inl ''No columns to parse from file'',
                       read_excel = Inr sheet\<rparr>)) None no_choice) =
   Some ([''Error reading file: No columns to parse from file''],
         [''Date'', ''Category'', ''Amount'', ''Notes'', ''Gender''], 0,
         \<lparr>kpi_total = 0, kpi_avg = Some 0, kpi_count = 0, kpi_max = Some 0\<rparr>,
         Info ''No monthly trend data available for current filters.'', None)"
proof -
  have n: "endswith (lower ''expenses.CSV'') ''.csv''"
    by code_simp
  then have "(if endswith (lower (upload_name \<lparr>upload_name = ''expenses.CSV'',
                       read_csv = Inl ''No columns to parse from file'',
                       read_excel = Inr sheet\<rparr>)) ''.csv''
      then read_csv \<lparr>upload_name = ''expenses.CSV'',
                       read_csv = Inl ''No columns to parse from file'',
                       read_excel = Inr sheet\<rparr>
      else read_excel \<lparr>upload_name = ''expenses.CSV'',
                       read_csv = Inl ''No columns to parse from file'',
                       read_excel = Inr sheet\<rparr>) = Inl ''No columns to parse from file''"
    by simp
  from unreadable_upload [OF this, of typed_only "(2026, 11, 4)" no_choice]
  obtain p where "run_page typed_only (2026, 11, 4)
        (Upload (Some \<lparr>upload_name = ''expenses.CSV'',
                       read_csv = Inl ''No columns to parse from file'',
                       read_excel = Inr sheet\<rparr>)) None no_choice = Some p"
    and "errors p = [''Error reading file: '' @ ''No columns to parse from file'']"
    and "table p = \<lparr>columns = required, rows = []\<rparr>"
    and "figures p = \<lparr>kpi_total = 0, kpi_avg = Some 0, kpi_count = 0, kpi_max = Some 0\<rparr>"
    and "monthly p = Info ''No monthly trend data available for current filters.''"
    and "top p = None"
    by blast
  then show ?thesis
    using n by (simp add: required_def)
qed

end
